theory Spec2Isabelle
  imports Complex_Main
begin

section \<open>Python and numpy arithmetic, in exact arithmetic\<close>

text \<open>
  The notebook computes with Python numbers and numpy arrays. The model keeps the dynamic
  types and the exceptions of that arithmetic and replaces IEEE doubles by exact real
  numbers. Rounding, signed zeros and the finite range of doubles are outside the model:
  a model float neither overflows nor underflows, so the OverflowError that Python's
  \<open>**\<close> raises beyond the range of doubles, the infinities of an overflowing product
  and the zero of an underflowing one do not occur in it. A statement about the code is
  therefore made at given inputs or over bounded ranges of inputs, on which every
  intermediate value stays far inside the range of doubles and no value that decides a
  branch (a divisor, the base of a power) comes near zero.

  \<^item> A Python \<open>int\<close> or \<open>float\<close> is \<open>Float x\<close> with \<open>x\<close> real. The laws use only
    \<open>+\<close>, \<open>-\<close>, \<open>*\<close>, true division \<open>/\<close> and \<open>**\<close>, under which an \<open>int\<close>
    gives the value that the float of the same value gives, in exact arithmetic.
  \<^item> A Python \<open>complex\<close> is \<open>Cplx z\<close>: it is what \<open>**\<close> returns for a negative base and a
    non-integer exponent.
  \<^item> A one-dimensional numpy array is \<open>NDArray xs\<close>. An element is \<open>Num x\<close>, a finite
    real, or \<open>NotReal\<close>, which stands for NaN, an infinity or a complex element. numpy
    raises nothing in elementwise arithmetic (it warns and stores NaN or inf). The
    arrays given to the laws hold finite reals; on those inputs no law divides by an
    infinite element or uses a zero exponent, so \<open>NotReal\<close> stays \<open>NotReal\<close> in every
    operation that the laws perform.
\<close>

datatype error = AttributeError | ZeroDivisionError | ValueError

type_synonym 'a result = "error + 'a"

datatype scalar = Float real | Cplx complex

datatype elem = Num real | NotReal

datatype pyval = Scalar scalar | NDArray "elem list"

definition bind :: "'a result \<Rightarrow> ('a \<Rightarrow> 'b result) \<Rightarrow> 'b result" where
  "bind m f = (case m of Inl e \<Rightarrow> Inl e | Inr v \<Rightarrow> f v)"

subsection \<open>Python scalars\<close>

fun to_complex :: "scalar \<Rightarrow> complex" where
  "to_complex (Float x) = of_real x"
| "to_complex (Cplx z) = z"

fun sc_add :: "scalar \<Rightarrow> scalar \<Rightarrow> scalar result" where
  "sc_add (Float x) (Float y) = Inr (Float (x + y))"
| "sc_add a b = Inr (Cplx (to_complex a + to_complex b))"

fun sc_sub :: "scalar \<Rightarrow> scalar \<Rightarrow> scalar result" where
  "sc_sub (Float x) (Float y) = Inr (Float (x - y))"
| "sc_sub a b = Inr (Cplx (to_complex a - to_complex b))"

fun sc_mul :: "scalar \<Rightarrow> scalar \<Rightarrow> scalar result" where
  "sc_mul (Float x) (Float y) = Inr (Float (x * y))"
| "sc_mul a b = Inr (Cplx (to_complex a * to_complex b))"

text \<open>True division: a zero divisor, float or complex, raises.\<close>

fun sc_div :: "scalar \<Rightarrow> scalar \<Rightarrow> scalar result" where
  "sc_div (Float x) (Float y) =
     (if y = 0 then Inl ZeroDivisionError else Inr (Float (x / y)))"
| "sc_div a b =
     (if to_complex b = 0 then Inl ZeroDivisionError
      else Inr (Cplx (to_complex a / to_complex b)))"

text \<open>
  \<open>complex ** float\<close>: the polar form, with the argument in \<open>(-\<pi>, \<pi>]\<close>; zero to a
  negative power raises.
\<close>

definition complex_pow :: "complex \<Rightarrow> real \<Rightarrow> scalar result" where
  "complex_pow z y =
     (if y = 0 then Inr (Cplx 1)
      else if z = 0 then (if y < 0 then Inl ZeroDivisionError else Inr (Cplx 0))
      else Inr (Cplx (rcis (cmod z powr y) (Arg z * y))))"

text \<open>
  \<open>float ** float\<close>: zero to a negative power raises; a negative base with a non-integer
  exponent is handed to the complex power and gives a complex number, without any
  exception.
\<close>

definition float_pow :: "real \<Rightarrow> real \<Rightarrow> scalar result" where
  "float_pow x y =
     (if y = 0 then Inr (Float 1)
      else if x = 0 then (if y < 0 then Inl ZeroDivisionError else Inr (Float 0))
      else if x < 0 then
        (if y \<in> \<int> then Inr (Float (x powi \<lfloor>y\<rfloor>)) else complex_pow (of_real x) y)
      else Inr (Float (x powr y)))"

fun sc_pow :: "scalar \<Rightarrow> real \<Rightarrow> scalar result" where
  "sc_pow (Float x) y = float_pow x y"
| "sc_pow (Cplx z) y = complex_pow z y"

subsection \<open>numpy elements\<close>

fun np_add :: "elem \<Rightarrow> elem \<Rightarrow> elem" where
  "np_add (Num x) (Num y) = Num (x + y)"
| "np_add _ _ = NotReal"

fun np_sub :: "elem \<Rightarrow> elem \<Rightarrow> elem" where
  "np_sub (Num x) (Num y) = Num (x - y)"
| "np_sub _ _ = NotReal"

fun np_mul :: "elem \<Rightarrow> elem \<Rightarrow> elem" where
  "np_mul (Num x) (Num y) = Num (x * y)"
| "np_mul _ _ = NotReal"

text \<open>Division by a zero element stores an infinity or NaN.\<close>

fun np_div :: "elem \<Rightarrow> elem \<Rightarrow> elem" where
  "np_div (Num x) (Num y) = (if y = 0 then NotReal else Num (x / y))"
| "np_div _ _ = NotReal"

text \<open>
  Elementwise power with a Python float exponent: a negative base with a non-integer
  exponent stores NaN, zero to a negative power stores an infinity.
\<close>

fun np_pow :: "elem \<Rightarrow> real \<Rightarrow> elem" where
  "np_pow (Num x) y =
     (if y = 0 then Num 1
      else if x = 0 then (if y < 0 then NotReal else Num 0)
      else if x < 0 then (if y \<in> \<int> then Num (x powi \<lfloor>y\<rfloor>) else NotReal)
      else Num (x powr y))"
| "np_pow NotReal y = NotReal"

subsection \<open>Dynamic dispatch and broadcasting\<close>

text \<open>A Python scalar that meets an array: a complex scalar makes the array complex.\<close>

fun as_elem :: "scalar \<Rightarrow> elem" where
  "as_elem (Float x) = Num x"
| "as_elem (Cplx z) = NotReal"

text \<open>Two one-dimensional arrays: equal lengths, or one of length one, else ValueError.\<close>

definition broadcast :: "(elem \<Rightarrow> elem \<Rightarrow> elem) \<Rightarrow> elem list \<Rightarrow> elem list \<Rightarrow> pyval result" where
  "broadcast f xs ys =
     (if length xs = length ys then Inr (NDArray (map2 f xs ys))
      else if length xs = 1 then Inr (NDArray (map (f (hd xs)) ys))
      else if length ys = 1 then Inr (NDArray (map (\<lambda>x. f x (hd ys)) xs))
      else Inl ValueError)"

fun binop :: "(scalar \<Rightarrow> scalar \<Rightarrow> scalar result) \<Rightarrow> (elem \<Rightarrow> elem \<Rightarrow> elem) \<Rightarrow>
    pyval \<Rightarrow> pyval \<Rightarrow> pyval result" where
  "binop sc np (Scalar a) (Scalar b) = bind (sc a b) (\<lambda>c. Inr (Scalar c))"
| "binop sc np (Scalar a) (NDArray ys) = Inr (NDArray (map (np (as_elem a)) ys))"
| "binop sc np (NDArray xs) (Scalar b) = Inr (NDArray (map (\<lambda>x. np x (as_elem b)) xs))"
| "binop sc np (NDArray xs) (NDArray ys) = broadcast np xs ys"

definition py_add :: "pyval \<Rightarrow> pyval \<Rightarrow> pyval result" where
  "py_add = binop sc_add np_add"

definition py_sub :: "pyval \<Rightarrow> pyval \<Rightarrow> pyval result" where
  "py_sub = binop sc_sub np_sub"

definition py_mul :: "pyval \<Rightarrow> pyval \<Rightarrow> pyval result" where
  "py_mul = binop sc_mul np_mul"

definition py_truediv :: "pyval \<Rightarrow> pyval \<Rightarrow> pyval result" where
  "py_truediv = binop sc_div np_div"

fun py_pow :: "pyval \<Rightarrow> real \<Rightarrow> pyval result" where
  "py_pow (Scalar a) y = bind (sc_pow a y) (\<lambda>c. Inr (Scalar c))"
| "py_pow (NDArray xs) y = Inr (NDArray (map (\<lambda>x. np_pow x y) xs))"

subsection \<open>Expressions\<close>

text \<open>
  An expression evaluates its left operand, then its right operand, then applies the
  operator; the first exception ends the evaluation.
\<close>

definition lift2 :: "(pyval \<Rightarrow> pyval \<Rightarrow> pyval result) \<Rightarrow> pyval result \<Rightarrow> pyval result \<Rightarrow>
    pyval result" where
  "lift2 f a b = bind a (\<lambda>x. bind b (\<lambda>y. f x y))"

definition add_r :: "pyval result \<Rightarrow> pyval result \<Rightarrow> pyval result" where
  "add_r = lift2 py_add"

definition sub_r :: "pyval result \<Rightarrow> pyval result \<Rightarrow> pyval result" where
  "sub_r = lift2 py_sub"

definition mul_r :: "pyval result \<Rightarrow> pyval result \<Rightarrow> pyval result" where
  "mul_r = lift2 py_mul"

definition div_r :: "pyval result \<Rightarrow> pyval result \<Rightarrow> pyval result" where
  "div_r = lift2 py_truediv"

definition pow_r :: "pyval result \<Rightarrow> real \<Rightarrow> pyval result" where
  "pow_r a y = bind a (\<lambda>x. py_pow x y)"

abbreviation num :: "real \<Rightarrow> pyval result" where
  "num x \<equiv> Inr (Scalar (Float x))"

section \<open>The reactor record\<close>

text \<open>
  \<open>ReactorScaling.__init__\<close> sets nine attributes; \<open>B\<close> and \<open>R\<close> exist only after
  \<open>set_B_and_R_ref\<close>, and reading them before raises AttributeError.
\<close>

record ReactorScaling =
  A :: real
  q :: real
  H :: real
  beta_N :: real
  f_GW :: real
  f_LH :: real
  P_fus :: real
  Q_CD :: real
  Q_PB :: real
  B :: "real option"
  R :: "real option"

definition init :: "real \<Rightarrow> real \<Rightarrow> real \<Rightarrow> real \<Rightarrow> real \<Rightarrow> real \<Rightarrow> real \<Rightarrow> real \<Rightarrow> real \<Rightarrow>
    ReactorScaling" where
  "init A0 q0 H0 beta_N0 f_GW0 f_LH0 P_fus0 Q_CD0 Q_PB0 =
     \<lparr>A = A0, q = q0, H = H0, beta_N = beta_N0, f_GW = f_GW0, f_LH = f_LH0,
      P_fus = P_fus0, Q_CD = Q_CD0, Q_PB = Q_PB0, B = None, R = None\<rparr>"

definition set_B_and_R_ref :: "ReactorScaling \<Rightarrow> real \<Rightarrow> real \<Rightarrow> ReactorScaling" where
  "set_B_and_R_ref self B_ref R_ref = self\<lparr>B := Some B_ref, R := Some R_ref\<rparr>"

definition RS_ITER :: ReactorScaling where
  "RS_ITER = set_B_and_R_ref (init 3.1 3.1 1.0 1.8 0.85 1.33 400 1 10) 5.2 6.2"

definition getattr :: "real option \<Rightarrow> real result" where
  "getattr v = (case v of None \<Rightarrow> Inl AttributeError | Some x \<Rightarrow> Inr x)"

section \<open>The four laws\<close>

text \<open>
  Each law takes the radius \<open>R0\<close> (a Python number or an array of radii), the reactor to
  explore and the reference reactor. The attribute reads come first, as in the source;
  then the statements in their order.
\<close>

text \<open>Equation 2.1 solved for B; \<open>c_fus\<close> is the law's first statement.\<close>

definition c_fus :: "ReactorScaling \<Rightarrow> real \<Rightarrow> real \<Rightarrow> pyval result" where
  "c_fus reactor_ref B_ref R_ref =
     div_r (mul_r (mul_r (num (P_fus reactor_ref)) (pow_r (num (q reactor_ref)) 2))
                  (pow_r (num (A reactor_ref)) 4))
           (mul_r (mul_r (pow_r (num (beta_N reactor_ref)) 2) (pow_r (num B_ref) 4))
                  (pow_r (num R_ref) 3))"

definition B_Pfus :: "pyval \<Rightarrow> ReactorScaling \<Rightarrow> ReactorScaling \<Rightarrow> pyval result" where
  "B_Pfus R0 reactor reactor_ref =
     bind (getattr (B reactor_ref)) (\<lambda>B_ref.
     bind (getattr (R reactor_ref)) (\<lambda>R_ref.
     bind (c_fus reactor_ref B_ref R_ref) (\<lambda>c.
     bind (mul_r (mul_r (pow_r (num (P_fus reactor)) 0.25) (pow_r (num (q reactor)) 0.5))
                 (num (A reactor))) (\<lambda>numerator.
     bind (mul_r (mul_r (pow_r (Inr c) 0.25) (pow_r (num (beta_N reactor)) 0.5))
                 (pow_r (Inr R0) 0.75)) (\<lambda>denominator.
     py_truediv numerator denominator)))))"

text \<open>Equation 2.2 solved for B; \<open>c_PB\<close> is the law's first statement.\<close>

definition c_PB :: "ReactorScaling \<Rightarrow> real \<Rightarrow> real \<Rightarrow> pyval result" where
  "c_PB reactor_ref B_ref R_ref =
     div_r (add_r (pow_r (num (Q_PB reactor_ref)) (- 1)) (num (1 / 5)))
           (div_r (mul_r (pow_r (num (q reactor_ref)) 3.1) (pow_r (num (A reactor_ref)) 3.53))
                  (mul_r (mul_r (mul_r (pow_r (num (H reactor_ref)) 3.23)
                                       (pow_r (num (beta_N reactor_ref)) 0.1))
                                (pow_r (num R_ref) 2.7))
                         (pow_r (num B_ref) 3.7)))"

text \<open>
  The value that the last line of \<open>B_Q_PB\<close> raises to the power \<open>1/3.7\<close>:
  \<open>first_term * numerator / denominator\<close>.
\<close>

definition B_Q_PB_base :: "pyval \<Rightarrow> ReactorScaling \<Rightarrow> ReactorScaling \<Rightarrow> pyval result" where
  "B_Q_PB_base R0 reactor reactor_ref =
     bind (getattr (B reactor_ref)) (\<lambda>B_ref.
     bind (getattr (R reactor_ref)) (\<lambda>R_ref.
     bind (c_PB reactor_ref B_ref R_ref) (\<lambda>c.
     bind (div_r (Inr c) (add_r (pow_r (num (Q_PB reactor)) (- 1)) (num (1 / 5))))
       (\<lambda>first_term.
     bind (mul_r (pow_r (num (q reactor)) 3.1) (pow_r (num (A reactor)) 3.53))
       (\<lambda>numerator.
     bind (mul_r (mul_r (pow_r (num (H reactor)) 3.23) (pow_r (num (beta_N reactor)) 0.1))
                 (pow_r (Inr R0) 2.7)) (\<lambda>denominator.
     div_r (mul_r (Inr first_term) (Inr numerator)) (Inr denominator)))))))"

definition B_Q_PB :: "pyval \<Rightarrow> ReactorScaling \<Rightarrow> ReactorScaling \<Rightarrow> pyval result" where
  "B_Q_PB R0 reactor reactor_ref = pow_r (B_Q_PB_base R0 reactor reactor_ref) (1 / 3.7)"

text \<open>Equation 2.3 solved for B, with the three local constants of the source.\<close>

definition Z_eff_ref :: real where
  "Z_eff_ref = 1"

definition Z_eff :: real where
  "Z_eff = Z_eff_ref"

definition c_BS :: real where
  "c_BS = 0.7 * 0.00331 / 0.104"

text \<open>\<open>1 - c_BS * A**0.5 * q * beta_N\<close>, which the source writes for both reactors.\<close>

definition bootstrap :: "ReactorScaling \<Rightarrow> pyval result" where
  "bootstrap r =
     sub_r (num 1)
       (mul_r (mul_r (mul_r (num c_BS) (pow_r (num (A r)) 0.5)) (num (q r))) (num (beta_N r)))"

definition B_Q_CD :: "pyval \<Rightarrow> ReactorScaling \<Rightarrow> ReactorScaling \<Rightarrow> pyval result" where
  "B_Q_CD R0 reactor reactor_ref =
     bind (getattr (B reactor_ref)) (\<lambda>B_ref.
     bind (getattr (R reactor_ref)) (\<lambda>R_ref.
     mul_r (mul_r (mul_r (mul_r (mul_r (mul_r (mul_r
       (num B_ref)
       (pow_r (div_r (num (Q_CD reactor)) (num (Q_CD reactor_ref))) (1 / 3)))
       (div_r (num (A reactor)) (num (A reactor_ref))))
       (div_r (num R_ref) (Inr R0)))
       (div_r (num (beta_N reactor_ref)) (num (beta_N reactor))))
       (pow_r (div_r (num (f_GW reactor)) (num (f_GW reactor_ref))) (2 / 3)))
       (pow_r (div_r (num (5 + Z_eff)) (num (5 + Z_eff_ref))) (1 / 3)))
       (pow_r (div_r (bootstrap reactor) (bootstrap reactor_ref)) (1 / 3))))"

text \<open>Equation 2.4 solved for B.\<close>

definition B_f_zdiv :: "pyval \<Rightarrow> ReactorScaling \<Rightarrow> ReactorScaling \<Rightarrow> pyval result" where
  "B_f_zdiv R0 reactor reactor_ref =
     bind (getattr (B reactor_ref)) (\<lambda>B_ref.
     bind (getattr (R reactor_ref)) (\<lambda>R_ref.
     mul_r (num B_ref)
       (pow_r (mul_r (mul_r (mul_r
          (pow_r (div_r (num (f_GW reactor)) (num (f_GW reactor_ref))) 1.18)
          (pow_r (div_r (num (f_LH reactor_ref)) (num (f_LH reactor))) 1.14))
          (pow_r (div_r (num (q reactor_ref)) (num (q reactor))) 0.32))
          (pow_r (div_r (num R_ref) (Inr R0)) 1.33))
        (1 / 0.88))))"

section \<open>Notions used in the statements\<close>

text \<open>
  All nine parameters of a reactor are positive. The reference additionally needs \<open>B\<close> and
  \<open>R\<close>, which the statements name \<open>B_ref\<close> and \<open>R_ref\<close>.
\<close>

definition positive :: "ReactorScaling \<Rightarrow> bool" where
  "positive r \<longleftrightarrow> 0 < A r \<and> 0 < q r \<and> 0 < H r \<and> 0 < beta_N r \<and> 0 < f_GW r \<and> 0 < f_LH r \<and>
     0 < P_fus r \<and> 0 < Q_CD r \<and> 0 < Q_PB r"

text \<open>
  The domains of the eight sliders of the notebook's widget, with the aspect ratio fixed at
  \<open>3.1\<close> as in the function \<open>f\<close> that builds the target reactor.
\<close>

definition in_slider_domain :: "ReactorScaling \<Rightarrow> bool" where
  "in_slider_domain t \<longleftrightarrow>
     A t = 3.1 \<and> 3.1 \<le> q t \<and> q t \<le> 6 \<and> 1 \<le> H t \<and> H t \<le> 1.2 \<and>
     1.8 \<le> beta_N t \<and> beta_N t \<le> 3.5 \<and> 0.85 \<le> f_GW t \<and> f_GW t \<le> 1.2 \<and>
     1 \<le> f_LH t \<and> f_LH t \<le> 1.33 \<and> 400 \<le> P_fus t \<and> P_fus t \<le> 3500 \<and>
     1 \<le> Q_CD t \<and> Q_CD t \<le> 100 \<and> 1 \<le> Q_PB t \<and> Q_PB t \<le> 100"

text \<open>
  The bounded ranges of the statements: a value between \<open>0.1\<close> and \<open>10000\<close>, a reactor
  with all nine parameters in that range, and a reactor whose parameters have their
  absolute values in that range, with \<open>Q_PB\<close> positive. The ITER reference and the slider
  domains lie inside.
\<close>

definition in_range :: "real \<Rightarrow> bool" where
  "in_range x \<longleftrightarrow> 1 / 10 \<le> x \<and> x \<le> 10000"

definition bounded_positive :: "ReactorScaling \<Rightarrow> bool" where
  "bounded_positive r \<longleftrightarrow> in_range (A r) \<and> in_range (q r) \<and> in_range (H r) \<and>
     in_range (beta_N r) \<and> in_range (f_GW r) \<and> in_range (f_LH r) \<and> in_range (P_fus r) \<and>
     in_range (Q_CD r) \<and> in_range (Q_PB r)"


text \<open>
  The values of the laws as real numbers, for inputs on which every intermediate value is a
  positive real: the expressions of the source, with \<open>powr\<close> for \<open>**\<close>. The lemmas
  below prove that the laws return these values.
\<close>

definition c_fus_real :: "ReactorScaling \<Rightarrow> real \<Rightarrow> real \<Rightarrow> real" where
  "c_fus_real ref B_ref R_ref =
     P_fus ref * (q ref)\<^sup>2 * (A ref) ^ 4 / ((beta_N ref)\<^sup>2 * B_ref ^ 4 * R_ref ^ 3)"

definition B_Pfus_inverse :: "real \<Rightarrow> real \<Rightarrow> ReactorScaling \<Rightarrow> real" where
  "B_Pfus_inverse c r t =
     P_fus t powr 0.25 * q t powr 0.5 * A t / (c powr 0.25 * beta_N t powr 0.5 * r powr 0.75)"

definition c_PB_real :: "ReactorScaling \<Rightarrow> real \<Rightarrow> real \<Rightarrow> real" where
  "c_PB_real ref B_ref R_ref =
     (1 / Q_PB ref + 1 / 5) /
     (q ref powr 3.1 * A ref powr 3.53 /
      (H ref powr 3.23 * beta_N ref powr 0.1 * R_ref powr 2.7 * B_ref powr 3.7))"

definition B_Q_PB_base_real :: "real \<Rightarrow> real \<Rightarrow> ReactorScaling \<Rightarrow> real" where
  "B_Q_PB_base_real c r t =
     c / (1 / Q_PB t + 1 / 5) * (q t powr 3.1 * A t powr 3.53) /
     (H t powr 3.23 * beta_N t powr 0.1 * r powr 2.7)"

definition bootstrap_real :: "ReactorScaling \<Rightarrow> real" where
  "bootstrap_real r = 1 - c_BS * A r powr 0.5 * q r * beta_N r"

definition B_Q_CD_real :: "real \<Rightarrow> ReactorScaling \<Rightarrow> ReactorScaling \<Rightarrow> real \<Rightarrow> real \<Rightarrow> real" where
  "B_Q_CD_real r t ref B_ref R_ref =
     B_ref * (Q_CD t / Q_CD ref) powr (1 / 3) * (A t / A ref) * (R_ref / r) *
     (beta_N ref / beta_N t) * (f_GW t / f_GW ref) powr (2 / 3) *
     (bootstrap_real t / bootstrap_real ref) powr (1 / 3)"

definition B_f_zdiv_real :: "real \<Rightarrow> ReactorScaling \<Rightarrow> ReactorScaling \<Rightarrow> real \<Rightarrow> real \<Rightarrow> real" where
  "B_f_zdiv_real r t ref B_ref R_ref =
     B_ref * ((f_GW t / f_GW ref) powr 1.18 * (f_LH ref / f_LH t) powr 1.14 *
              (q ref / q t) powr 0.32 * (R_ref / r) powr 1.33) powr (1 / 0.88)"

text \<open>
  Two formulas written from the words of the specification, to be compared with the code:
  the calibration constant of the fusion-power law without an aspect-ratio factor, and the
  current-drive law with the powers \<open>1/3, 1, -1, -1, 2/3, 1/3\<close> on the six ratios
  \<open>Q_CD/Q_CD_ref\<close>, \<open>A/A_ref\<close>, \<open>R_ref/R\<close>, \<open>beta_N_ref/beta_N\<close>,
  \<open>f_GW/f_GW_ref\<close> and the bootstrap ratio.
\<close>

definition c_fus_claimed :: "ReactorScaling \<Rightarrow> real \<Rightarrow> real \<Rightarrow> real" where
  "c_fus_claimed ref B_ref R_ref =
     P_fus ref * (q ref)\<^sup>2 / ((beta_N ref)\<^sup>2 * B_ref ^ 4 * R_ref ^ 3)"

definition B_Q_CD_claimed :: "real \<Rightarrow> ReactorScaling \<Rightarrow> ReactorScaling \<Rightarrow> real \<Rightarrow> real \<Rightarrow> real" where
  "B_Q_CD_claimed r t ref B_ref R_ref =
     B_ref * (Q_CD t / Q_CD ref) powr (1 / 3) * (A t / A ref) powr 1 * (R_ref / r) powr (- 1) *
     (beta_N ref / beta_N t) powr (- 1) * (f_GW t / f_GW ref) powr (2 / 3) *
     (bootstrap_real t / bootstrap_real ref) powr (1 / 3)"

text \<open>
  A result that is an exception or a Python scalar, not an array; a function of the list of
  radii that either raises the same exception for every list or returns the array of one
  value per radius, each computed from that radius alone; a result that is a Python
  complex number.
\<close>

definition is_scalar :: "pyval result \<Rightarrow> bool" where
  "is_scalar x = (case x of Inr (NDArray xs) \<Rightarrow> False | _ \<Rightarrow> True)"

definition elementwise :: "(real list \<Rightarrow> pyval result) \<Rightarrow> bool" where
  "elementwise F \<longleftrightarrow>
     (\<exists>e. \<forall>rs. F rs = Inl e) \<or> (\<exists>g. \<forall>rs. F rs = Inr (NDArray (map g rs)))"



definition nonzero :: "pyval result \<Rightarrow> bool" where
  "nonzero x \<longleftrightarrow> (\<exists>s. x = Inr (Scalar s) \<and> to_complex s \<noteq> 0)"


section \<open>Evaluation on real operands\<close>

lemma bind_Inr [simp]: "bind (Inr v) f = f v"
  by (simp add: bind_def)

lemma bind_Inl [simp]: "bind (Inl e) f = Inl e"
  by (simp add: bind_def)

lemma getattr_Some [simp]: "getattr (Some x) = Inr x"
  by (simp add: getattr_def)

lemma getattr_None [simp]: "getattr None = Inl AttributeError"
  by (simp add: getattr_def)

lemma add_r_num [simp]: "add_r (num x) (num y) = num (x + y)"
  by (simp add: add_r_def lift2_def py_add_def)

lemma sub_r_num [simp]: "sub_r (num x) (num y) = num (x - y)"
  by (simp add: sub_r_def lift2_def py_sub_def)

lemma mul_r_num [simp]: "mul_r (num x) (num y) = num (x * y)"
  by (simp add: mul_r_def lift2_def py_mul_def)

lemma div_r_num: "y \<noteq> 0 \<Longrightarrow> div_r (num x) (num y) = num (x / y)"
  by (simp add: div_r_def lift2_def py_truediv_def)

lemma py_truediv_num: "y \<noteq> 0 \<Longrightarrow> py_truediv (Scalar (Float x)) (Scalar (Float y)) = num (x / y)"
  by (simp add: py_truediv_def)

lemma pow_r_pos: "0 < x \<Longrightarrow> pow_r (num x) y = num (x powr y)"
  by (simp add: pow_r_def float_pow_def)

lemma pow_r_array [simp]:
  "pow_r (Inr (NDArray xs)) y = Inr (NDArray (map (\<lambda>x. np_pow x y) xs))"
  by (simp add: pow_r_def)

lemma mul_r_num_array [simp]:
  "mul_r (num x) (Inr (NDArray ys)) = Inr (NDArray (map (np_mul (Num x)) ys))"
  by (simp add: mul_r_def lift2_def py_mul_def)

lemma mul_r_array_num [simp]:
  "mul_r (Inr (NDArray xs)) (num y) = Inr (NDArray (map (\<lambda>x. np_mul x (Num y)) xs))"
  by (simp add: mul_r_def lift2_def py_mul_def)

lemma div_r_num_array [simp]:
  "div_r (num x) (Inr (NDArray ys)) = Inr (NDArray (map (np_div (Num x)) ys))"
  by (simp add: div_r_def lift2_def py_truediv_def)

lemma py_truediv_num_array [simp]:
  "py_truediv (Scalar (Float x)) (NDArray ys) = Inr (NDArray (map (np_div (Num x)) ys))"
  by (simp add: py_truediv_def)

section \<open>The laws on positive inputs\<close>

lemma c_fus_pos:
  assumes "positive ref" "0 < B_ref" "0 < R_ref"
  shows "c_fus ref B_ref R_ref = num (c_fus_real ref B_ref R_ref)"
  using assms by (simp add: c_fus_def c_fus_real_def positive_def pow_r_pos div_r_num)

lemma c_fus_real_pos:
  assumes "positive ref" "0 < B_ref" "0 < R_ref"
  shows "0 < c_fus_real ref B_ref R_ref"
  using assms by (simp add: c_fus_real_def positive_def)

lemma B_Pfus_scalar:
  assumes "positive t" "positive ref" "B ref = Some B_ref" "R ref = Some R_ref"
    "0 < B_ref" "0 < R_ref" "0 < r"
  shows "B_Pfus (Scalar (Float r)) t ref = num (B_Pfus_inverse (c_fus_real ref B_ref R_ref) r t)"
proof -
  have c: "0 < c_fus_real ref B_ref R_ref" using assms by (simp add: c_fus_real_pos)
  show ?thesis
    using assms c
    by (simp add: B_Pfus_def c_fus_pos B_Pfus_inverse_def positive_def pow_r_pos py_truediv_num)
qed

lemma B_Pfus_array:
  assumes "positive t" "positive ref" "B ref = Some B_ref" "R ref = Some R_ref"
    "0 < B_ref" "0 < R_ref" "\<forall>r\<in>set rs. 0 < r"
  shows "B_Pfus (NDArray (map Num rs)) t ref =
    Inr (NDArray (map (\<lambda>r. Num (B_Pfus_inverse (c_fus_real ref B_ref R_ref) r t)) rs))"
proof -
  have c: "0 < c_fus_real ref B_ref R_ref" using assms by (simp add: c_fus_real_pos)
  show ?thesis
    using assms c
    by (auto simp add: B_Pfus_def c_fus_pos B_Pfus_inverse_def positive_def pow_r_pos o_def)
qed

lemma c_PB_pos:
  assumes "positive ref" "0 < B_ref" "0 < R_ref"
  shows "c_PB ref B_ref R_ref = num (c_PB_real ref B_ref R_ref)"
proof -
  have "0 < 1 / Q_PB ref + 1 / 5" using assms by (simp add: positive_def add_pos_pos)
  then show ?thesis
  using assms by (simp add: c_PB_def c_PB_real_def positive_def pow_r_pos div_r_num powr_minus_divide)
qed

lemma c_PB_real_pos:
  assumes "positive ref" "0 < B_ref" "0 < R_ref"
  shows "0 < c_PB_real ref B_ref R_ref"
  using assms by (simp add: c_PB_real_def positive_def add_pos_pos)

lemma B_Q_PB_base_real_pos:
  assumes "positive t" "0 < c" "0 < r"
  shows "0 < B_Q_PB_base_real c r t"
  using assms by (simp add: B_Q_PB_base_real_def positive_def add_pos_pos)

lemma B_Q_PB_base_scalar:
  assumes "positive t" "positive ref" "B ref = Some B_ref" "R ref = Some R_ref"
    "0 < B_ref" "0 < R_ref" "0 < r"
  shows "B_Q_PB_base (Scalar (Float r)) t ref =
    num (B_Q_PB_base_real (c_PB_real ref B_ref R_ref) r t)"
proof -
  have c: "0 < c_PB_real ref B_ref R_ref" using assms by (simp add: c_PB_real_pos)
  have s: "0 < 1 / Q_PB t + 1 / 5" using assms by (simp add: positive_def add_pos_pos)
  show ?thesis
    using assms c s
    by (simp add: B_Q_PB_base_def c_PB_pos B_Q_PB_base_real_def positive_def pow_r_pos div_r_num powr_minus_divide)
qed

lemma B_Q_PB_scalar:
  assumes "positive t" "positive ref" "B ref = Some B_ref" "R ref = Some R_ref"
    "0 < B_ref" "0 < R_ref" "0 < r"
  shows "B_Q_PB (Scalar (Float r)) t ref =
    num (B_Q_PB_base_real (c_PB_real ref B_ref R_ref) r t powr (1 / 3.7))"
  using assms B_Q_PB_base_real_pos [of t "c_PB_real ref B_ref R_ref" r]
  by (simp add: B_Q_PB_def B_Q_PB_base_scalar pow_r_pos c_PB_real_pos)

lemma B_Q_PB_array:
  assumes "positive t" "positive ref" "B ref = Some B_ref" "R ref = Some R_ref"
    "0 < B_ref" "0 < R_ref" "\<forall>r\<in>set rs. 0 < r"
  shows "B_Q_PB (NDArray (map Num rs)) t ref =
    Inr (NDArray (map (\<lambda>r. Num (B_Q_PB_base_real (c_PB_real ref B_ref R_ref) r t powr (1 / 3.7))) rs))"
proof -
  have c: "0 < c_PB_real ref B_ref R_ref" using assms by (simp add: c_PB_real_pos)
  have s: "0 < 1 / Q_PB t + 1 / 5" using assms by (simp add: positive_def add_pos_pos)
  have b: "\<forall>r\<in>set rs. 0 < B_Q_PB_base_real (c_PB_real ref B_ref R_ref) r t"
    using assms c by (simp add: B_Q_PB_base_real_pos)
  have "B_Q_PB_base (NDArray (map Num rs)) t ref =
      Inr (NDArray (map (\<lambda>r. Num (B_Q_PB_base_real (c_PB_real ref B_ref R_ref) r t)) rs))"
    using assms c s
    by (auto simp add: B_Q_PB_base_def c_PB_pos B_Q_PB_base_real_def positive_def pow_r_pos
        div_r_num powr_minus_divide o_def)
  then show ?thesis
    using b by (auto simp add: B_Q_PB_def o_def)
qed

lemma bootstrap_pos: "0 < A r \<Longrightarrow> bootstrap r = num (bootstrap_real r)"
  by (simp add: bootstrap_def bootstrap_real_def pow_r_pos)

lemma sixth_factor [simp]: "pow_r (div_r (num (5 + Z_eff)) (num (5 + Z_eff_ref))) (1 / 3) = num 1"
  by (simp add: Z_eff_def Z_eff_ref_def div_r_num pow_r_pos)

lemma B_Q_CD_scalar:
  assumes "positive t" "positive ref" "B ref = Some B_ref" "R ref = Some R_ref"
    "0 < bootstrap_real t" "0 < bootstrap_real ref" "0 < r"
  shows "B_Q_CD (Scalar (Float r)) t ref = num (B_Q_CD_real r t ref B_ref R_ref)"
  using assms
  by (simp add: B_Q_CD_def B_Q_CD_real_def bootstrap_pos positive_def pow_r_pos div_r_num)

lemma B_Q_CD_array:
  assumes "positive t" "positive ref" "B ref = Some B_ref" "R ref = Some R_ref"
    "0 < bootstrap_real t" "0 < bootstrap_real ref" "\<forall>r\<in>set rs. 0 < r"
  shows "B_Q_CD (NDArray (map Num rs)) t ref =
    Inr (NDArray (map (\<lambda>r. Num (B_Q_CD_real r t ref B_ref R_ref)) rs))"
  using assms
  by (auto simp add: B_Q_CD_def B_Q_CD_real_def bootstrap_pos positive_def pow_r_pos div_r_num o_def)

lemma B_f_zdiv_scalar:
  assumes "positive t" "positive ref" "B ref = Some B_ref" "R ref = Some R_ref"
    "0 < R_ref" "0 < r"
  shows "B_f_zdiv (Scalar (Float r)) t ref = num (B_f_zdiv_real r t ref B_ref R_ref)"
  using assms
  by (simp add: B_f_zdiv_def B_f_zdiv_real_def positive_def pow_r_pos div_r_num)

lemma B_f_zdiv_array:
  assumes "positive t" "positive ref" "B ref = Some B_ref" "R ref = Some R_ref"
    "0 < R_ref" "\<forall>r\<in>set rs. 0 < r"
  shows "B_f_zdiv (NDArray (map Num rs)) t ref =
    Inr (NDArray (map (\<lambda>r. Num (B_f_zdiv_real r t ref B_ref R_ref)) rs))"
  using assms
  by (auto simp add: B_f_zdiv_def B_f_zdiv_real_def positive_def pow_r_pos div_r_num o_def
      mult_less_0_iff divide_less_0_iff not_less)

section \<open>Algebra of the closed forms\<close>

lemma powr_quarter_pow4: "0 < x \<Longrightarrow> (x ^ 4) powr 0.25 = (x::real)"
  by (simp add: powr_powr flip: powr_numeral)

lemma roundtrip_Pfus:
  assumes "positive ref" "0 < B_ref" "0 < R_ref"
  shows "B_Pfus_inverse (c_fus_real ref B_ref R_ref) R_ref ref = B_ref"
proof -
  let ?P = "P_fus ref" and ?q = "q ref" and ?A = "A ref" and ?b = "beta_N ref"
  have pos: "0 < ?P" "0 < ?q" "0 < ?A" "0 < ?b"
    using assms by (simp_all add: positive_def)
  have c: "c_fus_real ref B_ref R_ref powr (1 / 4) =
      ?P powr (1 / 4) * ?q powr (1 / 2) * ?A / (?b powr (1 / 2) * B_ref * R_ref powr (3 / 4))"
    using pos assms(2,3)
    by (simp add: c_fus_real_def powr_divide powr_mult powr_powr flip: powr_numeral)
  show ?thesis
    using pos assms(2,3) by (simp add: B_Pfus_inverse_def c)
qed

lemma roundtrip_Q_PB:
  assumes "positive ref" "0 < B_ref" "0 < R_ref"
  shows "B_Q_PB_base_real (c_PB_real ref B_ref R_ref) R_ref ref powr (1 / 3.7) = B_ref"
proof -
  have s: "0 < 1 / Q_PB ref + 1 / 5" using assms by (simp add: positive_def add_pos_pos)
  have "B_Q_PB_base_real (c_PB_real ref B_ref R_ref) R_ref ref = B_ref powr 3.7"
    using assms s by (simp add: B_Q_PB_base_real_def c_PB_real_def positive_def)
  then show ?thesis using assms by (simp add: powr_powr)
qed

lemma roundtrip_Q_CD:
  assumes "positive ref" "bootstrap_real ref \<noteq> 0" "0 < R_ref"
  shows "B_Q_CD_real R_ref ref ref B_ref R_ref = B_ref"
  using assms by (simp add: B_Q_CD_real_def positive_def)

lemma roundtrip_f_zdiv:
  assumes "positive ref" "0 < R_ref"
  shows "B_f_zdiv_real R_ref ref ref B_ref R_ref = B_ref"
  using assms by (simp add: B_f_zdiv_real_def positive_def)

lemma mono_Pfus:
  assumes "positive t" "0 < c" "0 < r1" "r1 \<le> r2"
  shows "B_Pfus_inverse c r2 t \<le> B_Pfus_inverse c r1 t"
proof -
  define n where "n = P_fus t powr 0.25 * q t powr 0.5 * A t"
  define d where "d = c powr 0.25 * beta_N t powr 0.5"
  have n: "0 \<le> n" and d: "0 < d"
    using assms by (simp_all add: n_def d_def positive_def)
  have r: "r1 powr 0.75 \<le> r2 powr 0.75" "0 < r1 powr 0.75" "0 < r2 powr 0.75"
    using assms by (simp_all add: powr_mono2)
  have "n / (d * r2 powr 0.75) \<le> n / (d * r1 powr 0.75)"
    using n d r by (intro divide_left_mono mult_left_mono mult_pos_pos) simp_all
  then show ?thesis
    by (simp add: B_Pfus_inverse_def n_def d_def)
qed

lemma mono_Q_PB_base:
  assumes "positive t" "0 < c" "0 < r1" "r1 \<le> r2"
  shows "B_Q_PB_base_real c r2 t \<le> B_Q_PB_base_real c r1 t"
proof -
  define n where "n = c / (1 / Q_PB t + 1 / 5) * (q t powr 3.1 * A t powr 3.53)"
  define d where "d = H t powr 3.23 * beta_N t powr 0.1"
  have n: "0 \<le> n" and d: "0 < d"
    using assms by (simp_all add: n_def d_def positive_def add_pos_pos)
  have r: "r1 powr 2.7 \<le> r2 powr 2.7" "0 < r1 powr 2.7" "0 < r2 powr 2.7"
    using assms by (simp_all add: powr_mono2)
  have "n / (d * r2 powr 2.7) \<le> n / (d * r1 powr 2.7)"
    using n d r by (intro divide_left_mono mult_left_mono mult_pos_pos) simp_all
  then show ?thesis
    by (simp add: B_Q_PB_base_real_def n_def d_def)
qed

lemma mono_Q_PB:
  assumes "positive t" "0 < c" "0 < r1" "r1 \<le> r2"
  shows "B_Q_PB_base_real c r2 t powr (1 / 3.7) \<le> B_Q_PB_base_real c r1 t powr (1 / 3.7)"
  using mono_Q_PB_base [OF assms] B_Q_PB_base_real_pos [of t c r2] assms
  by (intro powr_mono2) simp_all

lemma mono_Q_CD:
  assumes "positive t" "positive ref" "0 \<le> B_ref" "0 \<le> R_ref" "0 < r1" "r1 \<le> r2"
  shows "B_Q_CD_real r2 t ref B_ref R_ref \<le> B_Q_CD_real r1 t ref B_ref R_ref"
proof -
  have "R_ref / r2 \<le> R_ref / r1" using assms by (simp add: frac_le)
  moreover have "0 \<le> B_ref * (Q_CD t / Q_CD ref) powr (1 / 3) * (A t / A ref)"
    using assms by (simp add: positive_def)
  moreover have "0 \<le> beta_N ref / beta_N t" using assms by (simp add: positive_def)
  ultimately show ?thesis
    unfolding B_Q_CD_real_def
    by (intro mult_right_mono mult_left_mono) simp_all
qed

lemma mono_f_zdiv:
  assumes "positive t" "positive ref" "0 \<le> B_ref" "0 \<le> R_ref" "0 < r1" "r1 \<le> r2"
  shows "B_f_zdiv_real r2 t ref B_ref R_ref \<le> B_f_zdiv_real r1 t ref B_ref R_ref"
proof -
  define k where "k = (f_GW t / f_GW ref) powr 1.18 * (f_LH ref / f_LH t) powr 1.14 *
              (q ref / q t) powr 0.32"
  have k: "0 \<le> k" by (simp add: k_def)
  have "R_ref / r2 \<le> R_ref / r1" "0 \<le> R_ref / r2" using assms by (simp_all add: frac_le)
  then have "(R_ref / r2) powr 1.33 \<le> (R_ref / r1) powr 1.33"
    by (intro powr_mono2) simp_all
  then have "k * (R_ref / r2) powr 1.33 \<le> k * (R_ref / r1) powr 1.33"
    using k by (rule mult_left_mono)
  then have "(k * (R_ref / r2) powr 1.33) powr (1 / 0.88) \<le> (k * (R_ref / r1) powr 1.33) powr (1 / 0.88)"
    using k by (intro powr_mono2) simp_all
  then have "B_ref * (k * (R_ref / r2) powr 1.33) powr (1 / 0.88)
      \<le> B_ref * (k * (R_ref / r1) powr 1.33) powr (1 / 0.88)"
    using assms(3) by (rule mult_left_mono)
  then show ?thesis
    by (simp add: B_f_zdiv_real_def k_def)
qed

lemma double_Pfus:
  assumes "0 < P_fus t"
  shows "B_Pfus_inverse c r (t\<lparr>P_fus := 2 * P_fus t\<rparr>) = 2 powr 0.25 * B_Pfus_inverse c r t"
  using assms by (simp add: B_Pfus_inverse_def powr_mult)

section \<open>The ITER reference\<close>

lemma iter_fields:
  "A RS_ITER = 3.1" "q RS_ITER = 3.1" "H RS_ITER = 1" "beta_N RS_ITER = 1.8"
  "f_GW RS_ITER = 0.85" "f_LH RS_ITER = 1.33" "P_fus RS_ITER = 400" "Q_CD RS_ITER = 1"
  "Q_PB RS_ITER = 10" "B RS_ITER = Some 5.2" "R RS_ITER = Some 6.2"
  by (simp_all add: RS_ITER_def set_B_and_R_ref_def init_def)

lemma iter_positive: "positive RS_ITER"
  by (simp add: positive_def iter_fields)

lemma slider_positive: "in_slider_domain t \<Longrightarrow> positive t"
  by (simp add: in_slider_domain_def positive_def)

lemma c_BS_value: "c_BS = 2317 / 104000"
  by (simp add: c_BS_def)

lemma sqrt_A_bound: "(3.1::real) powr 0.5 < 2"
  by (simp add: powr_half_sqrt real_less_lsqrt)

lemma iter_bootstrap: "0 < bootstrap_real RS_ITER"
proof -
  have "c_BS * (3.1::real) powr 0.5 * 3.1 * 1.8 < c_BS * 2 * 3.1 * 1.8"
    using sqrt_A_bound by (simp add: c_BS_value)
  also have "\<dots> < 1" by (simp add: c_BS_value)
  finally show ?thesis by (simp add: bootstrap_real_def iter_fields)
qed

lemma claimed_inverse:
  assumes "positive ref" "0 < B_ref" "0 < R_ref"
  shows "B_Pfus_inverse (c_fus_claimed ref B_ref R_ref) r t =
    A ref * B_Pfus_inverse (c_fus_real ref B_ref R_ref) r t"
proof -
  have a: "0 < A ref" using assms by (simp add: positive_def)
  have "c_fus_real ref B_ref R_ref = c_fus_claimed ref B_ref R_ref * A ref ^ 4"
    by (simp add: c_fus_real_def c_fus_claimed_def)
  then have "c_fus_real ref B_ref R_ref powr (1 / 4) = c_fus_claimed ref B_ref R_ref powr (1 / 4) * A ref"
    using a by (simp add: powr_mult powr_powr flip: powr_numeral)
  then show ?thesis
    using a by (simp add: B_Pfus_inverse_def)
qed

lemma two_quarter_bounds: "1.1891 < (2::real) powr 0.25" "(2::real) powr 0.25 < 1.1893"
proof -
  have "((1.1891::real) ^ 4) powr 0.25 < 2 powr 0.25"
    by (intro powr_less_mono2) (simp_all add: power4_eq_xxxx)
  then show "1.1891 < (2::real) powr 0.25"
    using powr_quarter_pow4 [of "1.1891"] by simp
  have "(2::real) powr 0.25 < ((1.1893::real) ^ 4) powr 0.25"
    by (intro powr_less_mono2) (simp_all add: power4_eq_xxxx)
  then show "(2::real) powr 0.25 < 1.1893"
    using powr_quarter_pow4 [of "1.1893"] by simp
qed

section \<open>Zero bases\<close>


section \<open>One curve per law\<close>

lemma B_Q_PB_base_array:
  assumes "positive t" "positive ref" "B ref = Some B_ref" "R ref = Some R_ref"
    "0 < B_ref" "0 < R_ref" "\<forall>r\<in>set rs. 0 < r"
  shows "B_Q_PB_base (NDArray (map Num rs)) t ref =
    Inr (NDArray (map (\<lambda>r. Num (B_Q_PB_base_real (c_PB_real ref B_ref R_ref) r t)) rs))"
proof -
  have c: "0 < c_PB_real ref B_ref R_ref" using assms by (simp add: c_PB_real_pos)
  have s: "0 < 1 / Q_PB t + 1 / 5" using assms by (simp add: positive_def add_pos_pos)
  show ?thesis
    using assms c s
    by (auto simp add: B_Q_PB_base_def c_PB_pos B_Q_PB_base_real_def positive_def pow_r_pos
        div_r_num powr_minus_divide o_def)
qed

lemma law_curve:
  assumes "positive t" "positive ref" "B ref = Some B_ref" "R ref = Some R_ref"
    "0 < B_ref" "0 < R_ref" "0 < bootstrap_real t" "0 < bootstrap_real ref"
    "law \<in> {B_Pfus, B_Q_PB, B_Q_CD, B_f_zdiv}"
  shows "\<exists>f. (\<forall>r. 0 < r \<longrightarrow> law (Scalar (Float r)) t ref = num (f r)) \<and>
    (\<forall>rs. (\<forall>r\<in>set rs. 0 < r) \<longrightarrow>
       law (NDArray (map Num rs)) t ref = Inr (NDArray (map (\<lambda>r. Num (f r)) rs))) \<and>
    (\<forall>r1 r2. 0 < r1 \<longrightarrow> r1 \<le> r2 \<longrightarrow> f r2 \<le> f r1)"
proof -
  note a = assms(1-4)
  have c1: "0 < c_fus_real ref B_ref R_ref" using assms by (simp add: c_fus_real_pos)
  have c2: "0 < c_PB_real ref B_ref R_ref" using assms by (simp add: c_PB_real_pos)
  have b: "0 \<le> B_ref" "0 \<le> R_ref" using assms by simp_all
  consider "law = B_Pfus" | "law = B_Q_PB" | "law = B_Q_CD" | "law = B_f_zdiv"
    using assms(9) by auto
  then show ?thesis
  proof cases
    case 1
    show ?thesis unfolding 1
      by (rule exI [of _ "\<lambda>r. B_Pfus_inverse (c_fus_real ref B_ref R_ref) r t"])
        (simp add: B_Pfus_scalar [OF a assms(5,6)] B_Pfus_array [OF a assms(5,6)]
          mono_Pfus [OF assms(1) c1])
  next
    case 2
    show ?thesis unfolding 2
      by (rule exI [of _ "\<lambda>r. B_Q_PB_base_real (c_PB_real ref B_ref R_ref) r t powr (1 / 3.7)"])
        (use mono_Q_PB [OF assms(1) c2] in
          \<open>simp add: B_Q_PB_scalar [OF a assms(5,6)] B_Q_PB_array [OF a assms(5,6)]\<close>)
  next
    case 3
    show ?thesis unfolding 3
      by (rule exI [of _ "\<lambda>r. B_Q_CD_real r t ref B_ref R_ref"])
        (simp add: B_Q_CD_scalar [OF a assms(7,8)] B_Q_CD_array [OF a assms(7,8)]
          mono_Q_CD [OF assms(1,2) b])
  next
    case 4
    show ?thesis unfolding 4
      by (rule exI [of _ "\<lambda>r. B_f_zdiv_real r t ref B_ref R_ref"])
        (simp add: B_f_zdiv_scalar [OF a assms(6)] B_f_zdiv_array [OF a assms(6)]
          mono_f_zdiv [OF assms(1,2) b])
  qed
qed

lemma iter_curve:
  assumes "law \<in> {B_Pfus, B_Q_PB, B_Q_CD, B_f_zdiv}"
  shows "\<exists>f. (\<forall>r. 0 < r \<longrightarrow> law (Scalar (Float r)) RS_ITER RS_ITER = num (f r)) \<and>
    (\<forall>rs. (\<forall>r\<in>set rs. 0 < r) \<longrightarrow>
       law (NDArray (map Num rs)) RS_ITER RS_ITER = Inr (NDArray (map (\<lambda>r. Num (f r)) rs))) \<and>
    (\<forall>r1 r2. 0 < r1 \<longrightarrow> r1 \<le> r2 \<longrightarrow> f r2 \<le> f r1)"
  by (rule law_curve [OF iter_positive iter_positive iter_fields(10,11) _ _
        iter_bootstrap iter_bootstrap assms]) simp_all

section \<open>Sweeps are elementwise\<close>

lemma is_scalar_simps [simp]: "is_scalar (Inl e)" "is_scalar (Inr (Scalar a))"
  by (simp_all add: is_scalar_def)

lemma is_scalar_cases:
  assumes "is_scalar x"
  obtains e where "x = Inl e" | a where "x = Inr (Scalar a)"
  using assms by (auto simp add: is_scalar_def split: sum.splits pyval.splits)

lemma is_scalar_binop:
  assumes "is_scalar a" "is_scalar b"
  shows "is_scalar (lift2 (binop sc np) a b)"
proof -
  have "is_scalar (bind (sc x y) (\<lambda>c. Inr (Scalar c)))" for x y
    by (cases "sc x y") simp_all
  then show ?thesis
    using assms by (auto elim!: is_scalar_cases simp add: lift2_def)
qed

lemma is_scalar_ops [simp]:
  assumes "is_scalar a" "is_scalar b"
  shows "is_scalar (add_r a b)" "is_scalar (sub_r a b)" "is_scalar (mul_r a b)"
    "is_scalar (div_r a b)"
  using assms
  by (simp_all add: add_r_def sub_r_def mul_r_def div_r_def py_add_def py_sub_def py_mul_def
      py_truediv_def is_scalar_binop)

lemma is_scalar_pow [simp]: "is_scalar a \<Longrightarrow> is_scalar (pow_r a y)"
proof (erule is_scalar_cases)
  fix s assume "a = Inr (Scalar s)"
  then show ?thesis by (cases "sc_pow s y") (simp_all add: pow_r_def)
qed (simp add: pow_r_def)

lemma is_scalar_bootstrap [simp]: "is_scalar (bootstrap r)"
  by (simp add: bootstrap_def)

lemma is_scalar_c_fus [simp]: "is_scalar (c_fus ref b r)"
  by (simp add: c_fus_def)

lemma is_scalar_c_PB [simp]: "is_scalar (c_PB ref b r)"
  by (simp add: c_PB_def)

lemma elementwise_input: "elementwise (\<lambda>rs. Inr (NDArray (map Num rs)))"
  unfolding elementwise_def by blast

lemma elementwise_pow:
  assumes "elementwise F"
  shows "elementwise (\<lambda>rs. pow_r (F rs) y)"
  using assms unfolding elementwise_def
proof (elim disjE exE)
  fix e assume "\<forall>rs. F rs = Inl e"
  then have "\<forall>rs. pow_r (F rs) y = Inl e" by (simp add: pow_r_def)
  then show "(\<exists>e. \<forall>rs. pow_r (F rs) y = Inl e) \<or>
      (\<exists>g. \<forall>rs. pow_r (F rs) y = Inr (NDArray (map g rs)))" by blast
next
  fix g assume "\<forall>rs. F rs = Inr (NDArray (map g rs))"
  then have "\<forall>rs. pow_r (F rs) y = Inr (NDArray (map (\<lambda>r. np_pow (g r) y) rs))"
    by (simp add: pow_r_def o_def)
  then show "(\<exists>e. \<forall>rs. pow_r (F rs) y = Inl e) \<or>
      (\<exists>g. \<forall>rs. pow_r (F rs) y = Inr (NDArray (map g rs)))" by blast
qed

lemma elementwise_binop_right:
  assumes "elementwise F" "is_scalar s"
  shows "elementwise (\<lambda>rs. lift2 (binop sc np) (F rs) s)"
  using assms(1) unfolding elementwise_def
proof (elim disjE exE)
  fix e assume "\<forall>rs. F rs = Inl e"
  then have "\<forall>rs. lift2 (binop sc np) (F rs) s = Inl e" by (simp add: lift2_def)
  then show "(\<exists>e. \<forall>rs. lift2 (binop sc np) (F rs) s = Inl e) \<or>
      (\<exists>g. \<forall>rs. lift2 (binop sc np) (F rs) s = Inr (NDArray (map g rs)))" by blast
next
  fix g assume g: "\<forall>rs. F rs = Inr (NDArray (map g rs))"
  from assms(2) show "(\<exists>e. \<forall>rs. lift2 (binop sc np) (F rs) s = Inl e) \<or>
      (\<exists>g. \<forall>rs. lift2 (binop sc np) (F rs) s = Inr (NDArray (map g rs)))"
  proof (cases rule: is_scalar_cases)
    case (1 e)
    then have "\<forall>rs. lift2 (binop sc np) (F rs) s = Inl e" using g by (simp add: lift2_def)
    then show ?thesis by blast
  next
    case (2 a)
    then have "\<forall>rs. lift2 (binop sc np) (F rs) s =
        Inr (NDArray (map (\<lambda>r. np (g r) (as_elem a)) rs))"
      using g by (simp add: lift2_def o_def)
    then show ?thesis by blast
  qed
qed

lemma elementwise_binop_left:
  assumes "is_scalar s" "elementwise F"
  shows "elementwise (\<lambda>rs. lift2 (binop sc np) s (F rs))"
  using assms(1)
proof (cases rule: is_scalar_cases)
  case (1 e)
  then have "\<forall>rs. lift2 (binop sc np) s (F rs) = Inl e" by (simp add: lift2_def)
  then show ?thesis unfolding elementwise_def by blast
next
  case (2 a)
  from assms(2) show ?thesis unfolding elementwise_def
  proof (elim disjE exE)
    fix e assume "\<forall>rs. F rs = Inl e"
    then have "\<forall>rs. lift2 (binop sc np) s (F rs) = Inl e" using 2 by (simp add: lift2_def)
    then show "(\<exists>e. \<forall>rs. lift2 (binop sc np) s (F rs) = Inl e) \<or>
      (\<exists>g. \<forall>rs. lift2 (binop sc np) s (F rs) = Inr (NDArray (map g rs)))" by blast
  next
    fix g assume "\<forall>rs. F rs = Inr (NDArray (map g rs))"
    then have "\<forall>rs. lift2 (binop sc np) s (F rs) =
        Inr (NDArray (map (\<lambda>r. np (as_elem a) (g r)) rs))"
      using 2 by (simp add: lift2_def o_def)
    then show "(\<exists>e. \<forall>rs. lift2 (binop sc np) s (F rs) = Inl e) \<or>
      (\<exists>g. \<forall>rs. lift2 (binop sc np) s (F rs) = Inr (NDArray (map g rs)))" by blast
  qed
qed

lemma elementwise_mul_right: "elementwise F \<Longrightarrow> is_scalar s \<Longrightarrow> elementwise (\<lambda>rs. mul_r (F rs) s)"
  by (simp add: mul_r_def py_mul_def elementwise_binop_right)

lemma elementwise_mul_left: "is_scalar s \<Longrightarrow> elementwise F \<Longrightarrow> elementwise (\<lambda>rs. mul_r s (F rs))"
  by (simp add: mul_r_def py_mul_def elementwise_binop_left)

lemma elementwise_div_left: "is_scalar s \<Longrightarrow> elementwise F \<Longrightarrow> elementwise (\<lambda>rs. div_r s (F rs))"
  by (simp add: div_r_def py_truediv_def elementwise_binop_left)

lemma elementwise_bind_scalar:
  assumes "is_scalar s" "\<And>a. elementwise (\<lambda>rs. K (Scalar a) rs)"
  shows "elementwise (\<lambda>rs. bind s (\<lambda>v. K v rs))"
  using assms(1)
proof (cases rule: is_scalar_cases)
  case (1 e)
  then show ?thesis by (simp add: elementwise_def)
next
  case (2 a)
  then show ?thesis using assms(2) [of a] by simp
qed

lemma elementwise_getattr:
  assumes "\<And>x. elementwise (\<lambda>rs. K x rs)"
  shows "elementwise (\<lambda>rs. bind (getattr v) (\<lambda>x. K x rs))"
  using assms by (cases v) (simp_all add: elementwise_def)

lemma elementwise_bind_div:
  assumes "elementwise F" "is_scalar s"
  shows "elementwise (\<lambda>rs. bind (F rs) (\<lambda>d. div_r s (Inr d)))"
proof -
  have "bind m (\<lambda>d. div_r s (Inr d)) = bind m (\<lambda>d. div_r s m)" for m
    by (cases m) simp_all
  moreover have "elementwise (\<lambda>rs. bind (F rs) (\<lambda>d. div_r s (F rs)))"
    using assms(1) unfolding elementwise_def
  proof (elim disjE exE)
    fix e assume "\<forall>rs. F rs = Inl e"
    then have "\<forall>rs. bind (F rs) (\<lambda>d. div_r s (F rs)) = Inl e" by simp
    then show "(\<exists>e. \<forall>rs. bind (F rs) (\<lambda>d. div_r s (F rs)) = Inl e) \<or>
      (\<exists>g. \<forall>rs. bind (F rs) (\<lambda>d. div_r s (F rs)) = Inr (NDArray (map g rs)))" by blast
  next
    fix g assume g: "\<forall>rs. F rs = Inr (NDArray (map g rs))"
    then have "elementwise F" unfolding elementwise_def by blast
    then have "elementwise (\<lambda>rs. div_r s (F rs))" using assms(2) by (simp add: elementwise_div_left)
    moreover have "bind (F rs) (\<lambda>d. div_r s (F rs)) = div_r s (F rs)" for rs
      using g by simp
    ultimately show "(\<exists>e. \<forall>rs. bind (F rs) (\<lambda>d. div_r s (F rs)) = Inl e) \<or>
      (\<exists>g. \<forall>rs. bind (F rs) (\<lambda>d. div_r s (F rs)) = Inr (NDArray (map g rs)))"
      by (simp add: elementwise_def)
  qed
  ultimately show ?thesis by simp
qed

lemmas elementwise_rules = elementwise_getattr elementwise_bind_scalar elementwise_bind_div
  elementwise_mul_left elementwise_mul_right elementwise_div_left elementwise_pow
  elementwise_input

lemma py_truediv_as_div_r: "py_truediv a d = div_r (Inr a) (Inr d)"
  by (simp add: div_r_def lift2_def)

lemma B_Pfus_elementwise: "elementwise (\<lambda>rs. B_Pfus (NDArray (map Num rs)) t ref)"
  unfolding B_Pfus_def py_truediv_as_div_r
  by (intro elementwise_rules) simp_all

lemma B_Q_PB_elementwise: "elementwise (\<lambda>rs. B_Q_PB (NDArray (map Num rs)) t ref)"
  unfolding B_Q_PB_def B_Q_PB_base_def
  by (intro elementwise_rules) simp_all

lemma B_Q_CD_elementwise: "elementwise (\<lambda>rs. B_Q_CD (NDArray (map Num rs)) t ref)"
  unfolding B_Q_CD_def
  by (intro elementwise_rules) simp_all

lemma B_f_zdiv_elementwise: "elementwise (\<lambda>rs. B_f_zdiv (NDArray (map Num rs)) t ref)"
  unfolding B_f_zdiv_def
  by (intro elementwise_rules) simp_all

lemma law_elementwise:
  assumes "law \<in> {B_Pfus, B_Q_PB, B_Q_CD, B_f_zdiv}"
  shows "elementwise (\<lambda>rs. law (NDArray (map Num rs)) t ref)"
  using assms B_Pfus_elementwise B_Q_PB_elementwise B_Q_CD_elementwise B_f_zdiv_elementwise
  by auto

section \<open>Signs and complex values through the operations\<close>


lemma nonzero_num [simp]: "nonzero (num a) \<longleftrightarrow> a \<noteq> 0"
  by (simp add: nonzero_def)

lemma nonzero_cplx [simp]: "nonzero (Inr (Scalar (Cplx z))) \<longleftrightarrow> z \<noteq> 0"
  by (simp add: nonzero_def)


lemma mul_r_cplx [simp]:
  "mul_r (num a) (Inr (Scalar (Cplx z))) = Inr (Scalar (Cplx (of_real a * z)))"
  "mul_r (Inr (Scalar (Cplx z))) (num a) = Inr (Scalar (Cplx (z * of_real a)))"
  "mul_r (Inr (Scalar (Cplx z))) (Inr (Scalar (Cplx w))) = Inr (Scalar (Cplx (z * w)))"
  by (simp_all add: mul_r_def lift2_def py_mul_def)

















section \<open>Negative bases in the four laws\<close>

lemma frac_exponents [simp]:
  "(1.18::real) \<notin> \<int>" "(1.14::real) \<notin> \<int>" "(0.32::real) \<notin> \<int>" "(1.33::real) \<notin> \<int>"
  "(1 / 0.88::real) \<notin> \<int>" "(0.25::real) \<notin> \<int>" "(0.5::real) \<notin> \<int>" "(0.75::real) \<notin> \<int>"
  "(3.1::real) \<notin> \<int>" "(3.53::real) \<notin> \<int>" "(3.23::real) \<notin> \<int>" "(0.1::real) \<notin> \<int>"
  "(2.7::real) \<notin> \<int>" "(1 / 3.7::real) \<notin> \<int>" "(1 / 3::real) \<notin> \<int>" "(2 / 3::real) \<notin> \<int>"
  by simp_all





lemma sub_r_cplx [simp]:
  "sub_r (num a) (Inr (Scalar (Cplx z))) = Inr (Scalar (Cplx (of_real a - z)))"
  by (simp add: sub_r_def lift2_def py_sub_def)





section \<open>The bounded ranges\<close>

lemma in_range_pos: "in_range x \<Longrightarrow> 0 < x"
  by (simp add: in_range_def)


lemma bounded_is_positive: "bounded_positive r \<Longrightarrow> positive r"
  by (simp add: bounded_positive_def positive_def in_range_pos)





lemma iter_bounded: "bounded_positive RS_ITER" "in_range 5.2" "in_range 6.2"
  by (simp_all add: bounded_positive_def in_range_def iter_fields)

lemma iter_bootstrap_lower: "1 / 10 \<le> bootstrap_real RS_ITER"
proof -
  have "c_BS * (3.1::real) powr 0.5 * 3.1 * 1.8 < c_BS * 2 * 3.1 * 1.8"
    using sqrt_A_bound by (simp add: c_BS_value)
  also have "\<dots> < 9 / 10" by (simp add: c_BS_value)
  finally show ?thesis by (simp add: bootstrap_real_def iter_fields)
qed

section \<open>The claims\<close>

text \<open>
  C1. At the radius \<open>6.2\<close> of the ITER reference, with the target equal to the reference,
  each of the four laws returns the reference field \<open>5.2\<close>, for a Python float radius and
  for the one-element array \<open>[6.2]\<close>. In exact arithmetic the value is exactly \<open>5.2\<close>.
\<close>

theorem reference_roundtrip:
  "B_Pfus (Scalar (Float 6.2)) RS_ITER RS_ITER = Inr (Scalar (Float 5.2)) \<and>
   B_Q_PB (Scalar (Float 6.2)) RS_ITER RS_ITER = Inr (Scalar (Float 5.2)) \<and>
   B_Q_CD (Scalar (Float 6.2)) RS_ITER RS_ITER = Inr (Scalar (Float 5.2)) \<and>
   B_f_zdiv (Scalar (Float 6.2)) RS_ITER RS_ITER = Inr (Scalar (Float 5.2)) \<and>
   B_Pfus (NDArray [Num 6.2]) RS_ITER RS_ITER = Inr (NDArray [Num 5.2]) \<and>
   B_Q_PB (NDArray [Num 6.2]) RS_ITER RS_ITER = Inr (NDArray [Num 5.2]) \<and>
   B_Q_CD (NDArray [Num 6.2]) RS_ITER RS_ITER = Inr (NDArray [Num 5.2]) \<and>
   B_f_zdiv (NDArray [Num 6.2]) RS_ITER RS_ITER = Inr (NDArray [Num 5.2])"
proof -
  note iter = iter_positive iter_fields(10,11)
  have b: "bootstrap_real RS_ITER \<noteq> 0" using iter_bootstrap by simp
  have 1: "B_Pfus (Scalar (Float 6.2)) RS_ITER RS_ITER = Inr (Scalar (Float 5.2))"
    by (simp add: B_Pfus_scalar [OF iter(1) iter] roundtrip_Pfus [OF iter(1)])
  have 2: "B_Q_PB (Scalar (Float 6.2)) RS_ITER RS_ITER = Inr (Scalar (Float 5.2))"
    using roundtrip_Q_PB [OF iter(1), of "5.2" "6.2"]
    by (simp add: B_Q_PB_scalar [OF iter(1) iter])
  have 3: "B_Q_CD (Scalar (Float 6.2)) RS_ITER RS_ITER = Inr (Scalar (Float 5.2))"
    by (simp add: B_Q_CD_scalar [OF iter(1) iter iter_bootstrap iter_bootstrap]
        roundtrip_Q_CD [OF iter(1) b])
  have 4: "B_f_zdiv (Scalar (Float 6.2)) RS_ITER RS_ITER = Inr (Scalar (Float 5.2))"
    by (simp add: B_f_zdiv_scalar [OF iter(1) iter] roundtrip_f_zdiv [OF iter(1)])
  have 5: "B_Pfus (NDArray [Num 6.2]) RS_ITER RS_ITER = Inr (NDArray [Num 5.2])"
    using B_Pfus_array [OF iter(1) iter, where rs = "[6.2]"]
    by (simp add: roundtrip_Pfus [OF iter(1)])
  have 6: "B_Q_PB (NDArray [Num 6.2]) RS_ITER RS_ITER = Inr (NDArray [Num 5.2])"
    using B_Q_PB_array [OF iter(1) iter, where rs = "[6.2]"] roundtrip_Q_PB [OF iter(1), of "5.2" "6.2"]
    by simp
  have 7: "B_Q_CD (NDArray [Num 6.2]) RS_ITER RS_ITER = Inr (NDArray [Num 5.2])"
    using B_Q_CD_array [OF iter(1) iter iter_bootstrap iter_bootstrap, where rs = "[6.2]"]
    by (simp add: roundtrip_Q_CD [OF iter(1) b])
  have 8: "B_f_zdiv (NDArray [Num 6.2]) RS_ITER RS_ITER = Inr (NDArray [Num 5.2])"
    using B_f_zdiv_array [OF iter(1) iter, where rs = "[6.2]"]
    by (simp add: roundtrip_f_zdiv [OF iter(1)])
  from 1 2 3 4 5 6 7 8 show ?thesis by blast
qed

text \<open>
  C2, as stated, fails: the constant that \<open>B_Pfus\<close> computes for the ITER reference is not
  \<open>P_fus_ref * q_ref^2 / (beta_N_ref^2 * B_ref^4 * R_ref^3)\<close>, and the field it returns at
  \<open>R = 6.2\<close> is not the inverse formula taken at that constant (which gives \<open>16.12\<close>,
  not \<open>5.2\<close>).
\<close>

theorem fusion_constant_counterexample:
  "c_fus RS_ITER 5.2 6.2 \<noteq> Inr (Scalar (Float (c_fus_claimed RS_ITER 5.2 6.2))) \<and>
   B_Pfus (Scalar (Float 6.2)) RS_ITER RS_ITER \<noteq>
     Inr (Scalar (Float (B_Pfus_inverse (c_fus_claimed RS_ITER 5.2 6.2) 6.2 RS_ITER)))"
proof -
  note iter = iter_positive iter_fields(10,11)
  have "c_fus RS_ITER 5.2 6.2 = Inr (Scalar (Float (c_fus_real RS_ITER 5.2 6.2)))"
    by (simp add: c_fus_pos [OF iter(1)])
  moreover have "c_fus_real RS_ITER 5.2 6.2 \<noteq> c_fus_claimed RS_ITER 5.2 6.2"
    by (simp add: c_fus_real_def c_fus_claimed_def iter_fields power2_eq_square power3_eq_cube
        power4_eq_xxxx)
  moreover have "B_Pfus (Scalar (Float 6.2)) RS_ITER RS_ITER = Inr (Scalar (Float 5.2))"
    by (simp add: B_Pfus_scalar [OF iter(1) iter] roundtrip_Pfus [OF iter(1)])
  moreover have "B_Pfus_inverse (c_fus_claimed RS_ITER 5.2 6.2) 6.2 RS_ITER = 16.12"
    by (simp add: claimed_inverse [OF iter(1)] roundtrip_Pfus [OF iter(1)] iter_fields)
  ultimately show ?thesis by simp
qed

text \<open>
  C2, amended. For a target and a reference with all parameters, the reference field and
  the reference radius between \<open>0.1\<close> and \<open>10000\<close>, the calibration constant of
  \<open>B_Pfus\<close> is \<open>c = P_fus_ref * q_ref^2 * A_ref^4 / (beta_N_ref^2 * B_ref^4 * R_ref^3)\<close>,
  with the factor \<open>A_ref^4\<close>, and the law returns
  \<open>P_fus^0.25 * q^0.5 * A / (c^0.25 * beta_N^0.5 * R^0.75)\<close> for a radius in that range and
  for every element of an array of such radii.
\<close>

theorem fusion_law_formula:
  assumes "bounded_positive reactor" "bounded_positive reactor_ref"
    "B reactor_ref = Some B_ref" "R reactor_ref = Some R_ref" "in_range B_ref" "in_range R_ref"
    "in_range r" "\<forall>r\<in>set rs. in_range r"
  shows "c_fus reactor_ref B_ref R_ref = Inr (Scalar (Float (c_fus_real reactor_ref B_ref R_ref))) \<and>
    B_Pfus (Scalar (Float r)) reactor reactor_ref =
      Inr (Scalar (Float (B_Pfus_inverse (c_fus_real reactor_ref B_ref R_ref) r reactor))) \<and>
    B_Pfus (NDArray (map Num rs)) reactor reactor_ref =
      Inr (NDArray (map (\<lambda>r. Num (B_Pfus_inverse (c_fus_real reactor_ref B_ref R_ref) r reactor)) rs))"
proof -
  have p: "positive reactor" "positive reactor_ref" "0 < B_ref" "0 < R_ref" "0 < r"
    "\<forall>r\<in>set rs. 0 < r"
    using assms by (simp_all add: bounded_is_positive in_range_pos)
  show ?thesis
    using p assms(3,4) by (simp add: c_fus_pos B_Pfus_scalar B_Pfus_array)
qed

text \<open>
  The amended C2 for a target that differs from the ITER reference in every parameter the
  law reads, at the radius \<open>4\<close> and the radii \<open>[2, 4]\<close>, with the formula written out.
\<close>

theorem fusion_law_formula_witness:
  "bounded_positive (init 4 3.5 1.1 2.5 1 1.2 1000 8 30) \<and> bounded_positive RS_ITER \<and>
   B RS_ITER = Some 5.2 \<and> R RS_ITER = Some 6.2 \<and> in_range 5.2 \<and> in_range 6.2 \<and> in_range 4 \<and>
   c_fus RS_ITER 5.2 6.2 =
     Inr (Scalar (Float (400 * 3.1\<^sup>2 * 3.1 ^ 4 / (1.8\<^sup>2 * 5.2 ^ 4 * 6.2 ^ 3)))) \<and>
   B_Pfus (Scalar (Float 4)) (init 4 3.5 1.1 2.5 1 1.2 1000 8 30) RS_ITER =
     Inr (Scalar (Float (1000 powr 0.25 * 3.5 powr 0.5 * 4 /
       ((400 * 3.1\<^sup>2 * 3.1 ^ 4 / (1.8\<^sup>2 * 5.2 ^ 4 * 6.2 ^ 3)) powr 0.25 * 2.5 powr 0.5 *
        4 powr 0.75)))) \<and>
   B_Pfus (NDArray [Num 2, Num 4]) (init 4 3.5 1.1 2.5 1 1.2 1000 8 30) RS_ITER =
     Inr (NDArray [
       Num (1000 powr 0.25 * 3.5 powr 0.5 * 4 /
         ((400 * 3.1\<^sup>2 * 3.1 ^ 4 / (1.8\<^sup>2 * 5.2 ^ 4 * 6.2 ^ 3)) powr 0.25 * 2.5 powr 0.5 *
          2 powr 0.75)),
       Num (1000 powr 0.25 * 3.5 powr 0.5 * 4 /
         ((400 * 3.1\<^sup>2 * 3.1 ^ 4 / (1.8\<^sup>2 * 5.2 ^ 4 * 6.2 ^ 3)) powr 0.25 * 2.5 powr 0.5 *
          4 powr 0.75))])"
proof -
  have t: "bounded_positive (init 4 3.5 1.1 2.5 1 1.2 1000 8 30)"
    by (simp add: bounded_positive_def in_range_def init_def)
  have r: "in_range 4" "\<forall>r\<in>set [2, 4]. in_range r" by (simp_all add: in_range_def)
  have c: "c_fus_real RS_ITER 5.2 6.2 = 400 * 3.1\<^sup>2 * 3.1 ^ 4 / (1.8\<^sup>2 * 5.2 ^ 4 * 6.2 ^ 3)"
    by (simp add: c_fus_real_def iter_fields)
  have f: "B_Pfus_inverse c x (init 4 3.5 1.1 2.5 1 1.2 1000 8 30) =
      1000 powr 0.25 * 3.5 powr 0.5 * 4 / (c powr 0.25 * 2.5 powr 0.5 * x powr 0.75)" for c x
    by (simp add: B_Pfus_inverse_def init_def)
  from fusion_law_formula [OF t iter_bounded(1) iter_fields(10,11) iter_bounded(2,3) r]
  show ?thesis
    unfolding c f using t iter_bounded r(1) iter_fields(10,11) by simp
qed

text \<open>
  C3, as stated, fails: with target and reference both ITER and \<open>R = 3.1\<close>, half the
  reference radius, \<open>B_Q_CD\<close> returns \<open>10.4\<close>, while the product with the powers
  \<open>-1\<close> on \<open>R_ref/R\<close> and \<open>beta_N_ref/beta_N\<close> is \<open>2.6\<close>.
\<close>

theorem current_drive_powers_counterexample:
  "B_Q_CD (Scalar (Float 3.1)) RS_ITER RS_ITER = Inr (Scalar (Float 10.4)) \<and>
   B_Q_CD_claimed 3.1 RS_ITER RS_ITER 5.2 6.2 = 2.6 \<and>
   B_Q_CD (Scalar (Float 3.1)) RS_ITER RS_ITER \<noteq>
     Inr (Scalar (Float (B_Q_CD_claimed 3.1 RS_ITER RS_ITER 5.2 6.2)))"
proof -
  note iter = iter_positive iter_fields(10,11)
  have b: "bootstrap_real RS_ITER \<noteq> 0" using iter_bootstrap by simp
  have "B_Q_CD (Scalar (Float 3.1)) RS_ITER RS_ITER = Inr (Scalar (Float 10.4))"
    using b by (simp add: B_Q_CD_scalar [OF iter(1) iter iter_bootstrap iter_bootstrap]
        B_Q_CD_real_def iter_fields)
  moreover have "B_Q_CD_claimed 3.1 RS_ITER RS_ITER 5.2 6.2 = 2.6"
    using b by (simp add: B_Q_CD_claimed_def iter_fields powr_minus_divide)
  ultimately show ?thesis by simp
qed

text \<open>
  C3, amended. For a target and a reference with all parameters, the reference field and
  the reference radius between \<open>0.1\<close> and \<open>10000\<close> and both bootstrap terms at least
  \<open>0.1\<close>, and a radius in that range, \<open>B_Q_CD\<close> returns \<open>B_ref\<close> times
  \<open>(Q_CD/Q_CD_ref)^(1/3)\<close>, \<open>A/A_ref\<close>, \<open>R_ref/R\<close>, \<open>beta_N_ref/beta_N\<close>,
  \<open>(f_GW/f_GW_ref)^(2/3)\<close> and the cube root of the bootstrap ratio: the powers on the
  six ratios are \<open>1/3, 1, 1, 1, 2/3, 1/3\<close>. The seventh factor of the source,
  \<open>((5 + Z_eff)/(5 + Z_eff_ref))**(1/3)\<close>, is \<open>1\<close>.
\<close>

theorem current_drive_formula:
  assumes "bounded_positive reactor" "bounded_positive reactor_ref"
    "B reactor_ref = Some B_ref" "R reactor_ref = Some R_ref" "in_range B_ref" "in_range R_ref"
    "1 / 10 \<le> bootstrap_real reactor" "1 / 10 \<le> bootstrap_real reactor_ref"
    "in_range r" "\<forall>r\<in>set rs. in_range r"
  shows "bootstrap reactor = Inr (Scalar (Float (bootstrap_real reactor))) \<and>
    bootstrap reactor_ref = Inr (Scalar (Float (bootstrap_real reactor_ref))) \<and>
    pow_r (div_r (num (5 + Z_eff)) (num (5 + Z_eff_ref))) (1 / 3) = Inr (Scalar (Float 1)) \<and>
    B_Q_CD (Scalar (Float r)) reactor reactor_ref =
      Inr (Scalar (Float (B_Q_CD_real r reactor reactor_ref B_ref R_ref))) \<and>
    B_Q_CD (NDArray (map Num rs)) reactor reactor_ref =
      Inr (NDArray (map (\<lambda>r. Num (B_Q_CD_real r reactor reactor_ref B_ref R_ref)) rs))"
proof -
  have p: "positive reactor" "positive reactor_ref" "0 < r" "\<forall>r\<in>set rs. 0 < r"
    using assms by (simp_all add: bounded_is_positive in_range_pos)
  have b: "0 < bootstrap_real reactor" "0 < bootstrap_real reactor_ref"
    using assms(7,8) by simp_all
  show ?thesis
    using p b assms(3,4)
    by (simp add: B_Q_CD_scalar B_Q_CD_array bootstrap_pos positive_def)
qed

text \<open>
  The amended C3 for a target that differs from the ITER reference in \<open>Q_CD\<close>, \<open>A\<close>,
  \<open>beta_N\<close>, \<open>f_GW\<close> and \<open>q\<close>, at the radius \<open>3.1\<close> and the radii \<open>[2, 3.1]\<close>, so
  that each of the six ratios differs from \<open>1\<close>; the product is written out.
\<close>

theorem current_drive_formula_witness:
  "bounded_positive (init 4 3.5 1.1 2.5 1 1.2 1000 8 30) \<and> bounded_positive RS_ITER \<and>
   B RS_ITER = Some 5.2 \<and> R RS_ITER = Some 6.2 \<and> in_range 5.2 \<and> in_range 6.2 \<and>
   1 / 10 \<le> bootstrap_real (init 4 3.5 1.1 2.5 1 1.2 1000 8 30) \<and>
   1 / 10 \<le> bootstrap_real RS_ITER \<and> in_range 3.1 \<and>
   B_Q_CD (Scalar (Float 3.1)) (init 4 3.5 1.1 2.5 1 1.2 1000 8 30) RS_ITER =
     Inr (Scalar (Float (5.2 * (8 / 1) powr (1 / 3) * (4 / 3.1) * (6.2 / 3.1) * (1.8 / 2.5) *
       (1 / 0.85) powr (2 / 3) *
       ((1 - c_BS * 4 powr 0.5 * 3.5 * 2.5) / (1 - c_BS * 3.1 powr 0.5 * 3.1 * 1.8)) powr (1 / 3)))) \<and>
   B_Q_CD (NDArray [Num 2, Num 3.1]) (init 4 3.5 1.1 2.5 1 1.2 1000 8 30) RS_ITER =
     Inr (NDArray [
       Num (5.2 * (8 / 1) powr (1 / 3) * (4 / 3.1) * (6.2 / 2) * (1.8 / 2.5) *
         (1 / 0.85) powr (2 / 3) *
         ((1 - c_BS * 4 powr 0.5 * 3.5 * 2.5) / (1 - c_BS * 3.1 powr 0.5 * 3.1 * 1.8)) powr (1 / 3)),
       Num (5.2 * (8 / 1) powr (1 / 3) * (4 / 3.1) * (6.2 / 3.1) * (1.8 / 2.5) *
         (1 / 0.85) powr (2 / 3) *
         ((1 - c_BS * 4 powr 0.5 * 3.5 * 2.5) / (1 - c_BS * 3.1 powr 0.5 * 3.1 * 1.8)) powr (1 / 3))])"
proof -
  let ?t = "init 4 3.5 1.1 2.5 1 1.2 1000 8 30"
  have t: "bounded_positive ?t"
    by (simp add: bounded_positive_def in_range_def init_def)
  have r: "in_range 3.1" "\<forall>r\<in>set [2, 3.1]. in_range r" by (simp_all add: in_range_def)
  have "(4::real) powr 0.5 = 2" by (simp add: powr_half_sqrt)
  then have bt: "1 / 10 \<le> bootstrap_real ?t"
    by (simp add: bootstrap_real_def init_def c_BS_value)
  have f: "B_Q_CD_real x ?t RS_ITER 5.2 6.2 =
      5.2 * (8 / 1) powr (1 / 3) * (4 / 3.1) * (6.2 / x) * (1.8 / 2.5) * (1 / 0.85) powr (2 / 3) *
      ((1 - c_BS * 4 powr 0.5 * 3.5 * 2.5) / (1 - c_BS * 3.1 powr 0.5 * 3.1 * 1.8)) powr (1 / 3)" for x
    by (simp add: B_Q_CD_real_def bootstrap_real_def init_def iter_fields)
  from current_drive_formula [OF t iter_bounded(1) iter_fields(10,11) iter_bounded(2,3) bt
      iter_bootstrap_lower r]
  show ?thesis
    unfolding f using t iter_bounded r(1) iter_fields(10,11) bt iter_bootstrap_lower by simp
qed




text \<open>
  C5. With target and reference both ITER, for radii \<open>r1 < r2\<close> in \<open>[2, 10]\<close> each law
  returns real fields \<open>b1\<close> and \<open>b2\<close> with \<open>b2 \<le> b1\<close>, evaluated one radius at a
  time or over the array \<open>[r1, r2]\<close>.
\<close>

theorem field_decreases_with_radius:
  assumes "law \<in> {B_Pfus, B_Q_PB, B_Q_CD, B_f_zdiv}" "2 \<le> r1" "r1 < r2" "r2 \<le> 10"
  shows "\<exists>b1 b2. law (Scalar (Float r1)) RS_ITER RS_ITER = Inr (Scalar (Float b1)) \<and>
    law (Scalar (Float r2)) RS_ITER RS_ITER = Inr (Scalar (Float b2)) \<and>
    law (NDArray [Num r1, Num r2]) RS_ITER RS_ITER = Inr (NDArray [Num b1, Num b2]) \<and>
    b2 \<le> b1"
proof -
  from iter_curve [OF assms(1)] obtain f where
    s: "\<And>r. 0 < r \<Longrightarrow> law (Scalar (Float r)) RS_ITER RS_ITER = num (f r)" and
    v: "\<And>rs. \<forall>r\<in>set rs. 0 < r \<Longrightarrow>
       law (NDArray (map Num rs)) RS_ITER RS_ITER = Inr (NDArray (map (\<lambda>r. Num (f r)) rs))" and
    m: "\<And>r1 r2. 0 < r1 \<Longrightarrow> r1 \<le> r2 \<Longrightarrow> f r2 \<le> f r1"
    by blast
  have p: "0 < r1" "0 < r2" "r1 \<le> r2" using assms by simp_all
  have "law (NDArray (map Num [r1, r2])) RS_ITER RS_ITER =
      Inr (NDArray (map (\<lambda>r. Num (f r)) [r1, r2]))"
    using p by (intro v) simp
  then show ?thesis
    using s [OF p(1)] s [OF p(2)] m [OF p(1,3)] by simp
qed

text \<open>C5 for \<open>B_Q_CD\<close> at the ends of the sweep, \<open>2\<close> and \<open>10\<close>.\<close>

theorem field_decreases_with_radius_witness:
  "B_Q_CD \<in> {B_Pfus, B_Q_PB, B_Q_CD, B_f_zdiv} \<and> (2::real) \<le> 2 \<and> (2::real) < 10 \<and>
   (10::real) \<le> 10 \<and>
   (\<exists>b1 b2. B_Q_CD (Scalar (Float 2)) RS_ITER RS_ITER = Inr (Scalar (Float b1)) \<and>
    B_Q_CD (Scalar (Float 10)) RS_ITER RS_ITER = Inr (Scalar (Float b2)) \<and>
    B_Q_CD (NDArray [Num 2, Num 10]) RS_ITER RS_ITER = Inr (NDArray [Num b1, Num b2]) \<and>
    b2 \<le> b1)"
  using field_decreases_with_radius [of B_Q_CD 2 10] by simp

text \<open>
  C6. With the ITER reference and the ITER target except \<open>P_fus = 800\<close>, \<open>B_Pfus\<close> at
  the radius \<open>6.2\<close> returns \<open>5.2 * 2^0.25\<close>, which lies within \<open>0.001\<close> of
  \<open>6.184\<close>.
\<close>

theorem doubled_fusion_power:
  "B_Pfus (Scalar (Float 6.2)) (RS_ITER\<lparr>P_fus := 800\<rparr>) RS_ITER =
     Inr (Scalar (Float (5.2 * 2 powr 0.25))) \<and>
   B_Pfus (NDArray [Num 6.2]) (RS_ITER\<lparr>P_fus := 800\<rparr>) RS_ITER =
     Inr (NDArray [Num (5.2 * 2 powr 0.25)]) \<and>
   \<bar>5.2 * 2 powr 0.25 - 6.184\<bar> < (0.001::real)"
proof -
  note iter = iter_positive iter_fields(10,11)
  let ?t = "RS_ITER\<lparr>P_fus := 800\<rparr>"
  have t: "?t = RS_ITER\<lparr>P_fus := 2 * P_fus RS_ITER\<rparr>" by (simp add: iter_fields)
  have pt: "positive ?t" using iter_positive by (simp add: positive_def)
  have "B_Pfus_inverse (c_fus_real RS_ITER 5.2 6.2) 6.2 (RS_ITER\<lparr>P_fus := 2 * P_fus RS_ITER\<rparr>) =
      2 powr 0.25 * B_Pfus_inverse (c_fus_real RS_ITER 5.2 6.2) 6.2 RS_ITER"
    by (rule double_Pfus) (simp add: iter_fields)
  also have "\<dots> = 2 powr 0.25 * 5.2"
    by (simp add: roundtrip_Pfus [OF iter(1)])
  finally have v: "B_Pfus_inverse (c_fus_real RS_ITER 5.2 6.2) 6.2 ?t = 5.2 * 2 powr 0.25"
    by (simp add: t)
  have 1: "B_Pfus (Scalar (Float 6.2)) ?t RS_ITER = Inr (Scalar (Float (5.2 * 2 powr 0.25)))"
    using v by (simp add: B_Pfus_scalar [OF pt iter])
  have 2: "B_Pfus (NDArray [Num 6.2]) ?t RS_ITER = Inr (NDArray [Num (5.2 * 2 powr 0.25)])"
    using v B_Pfus_array [OF pt iter, where rs = "[6.2]"] by simp
  have 3: "\<bar>5.2 * 2 powr 0.25 - 6.184\<bar> < (0.001::real)"
  proof -
    define x where "x = (2::real) powr 0.25"
    have "11891 < 10000 * x" "10000 * x < 11893"
      using two_quarter_bounds by (simp_all add: x_def)
    then have "6183 < 1000 * (5.2 * x)" "1000 * (5.2 * x) < 6185"
      by simp_all
    then have "5.2 * x - 6.184 < 0.001 \<and> - (5.2 * x - 6.184) < 0.001"
      by simp
    then have "\<bar>5.2 * x - 6.184\<bar> < 0.001"
      unfolding abs_less_iff .
    then show ?thesis by (simp add: x_def)
  qed
  from 1 2 3 show ?thesis by blast
qed

text \<open>
  C7. For a target within the slider domains with \<open>Q_PB = 1\<close>, the ITER reference and a
  radius in \<open>[2, 10]\<close>, the value \<open>first_term * numerator / denominator\<close> of
  \<open>B_Q_PB\<close> is a positive real number, computed without exception, and the law returns
  its power \<open>1/3.7\<close>; the same holds for every element of an array of such radii.
\<close>

theorem power_balance_base_positive:
  assumes "in_slider_domain reactor" "Q_PB reactor = 1" "2 \<le> r" "r \<le> 10"
    "\<forall>r\<in>set rs. 2 \<le> r \<and> r \<le> 10"
  shows "(\<exists>b. B_Q_PB_base (Scalar (Float r)) reactor RS_ITER = Inr (Scalar (Float b)) \<and> 0 < b \<and>
      B_Q_PB (Scalar (Float r)) reactor RS_ITER = Inr (Scalar (Float (b powr (1 / 3.7))))) \<and>
    (\<exists>bs. B_Q_PB_base (NDArray (map Num rs)) reactor RS_ITER = Inr (NDArray (map Num bs)) \<and>
      (\<forall>b\<in>set bs. 0 < b) \<and>
      B_Q_PB (NDArray (map Num rs)) reactor RS_ITER =
        Inr (NDArray (map (\<lambda>b. Num (b powr (1 / 3.7))) bs)))"
proof -
  note iter = iter_positive iter_fields(10,11)
  have t: "positive reactor" using assms(1) by (rule slider_positive)
  have c: "0 < c_PB_real RS_ITER 5.2 6.2" by (simp add: c_PB_real_pos [OF iter(1)])
  let ?f = "\<lambda>r. B_Q_PB_base_real (c_PB_real RS_ITER 5.2 6.2) r reactor"
  have f: "0 < ?f x" if "0 < x" for x using that t c by (simp add: B_Q_PB_base_real_pos)
  have r: "0 < r" and rs: "\<forall>r\<in>set rs. 0 < r" using assms by auto
  have 1: "B_Q_PB_base (Scalar (Float r)) reactor RS_ITER = Inr (Scalar (Float (?f r)))"
    using r by (simp add: B_Q_PB_base_scalar [OF t iter])
  have 2: "B_Q_PB (Scalar (Float r)) reactor RS_ITER = Inr (Scalar (Float (?f r powr (1 / 3.7))))"
    using r by (simp add: B_Q_PB_scalar [OF t iter])
  have 3: "B_Q_PB_base (NDArray (map Num rs)) reactor RS_ITER = Inr (NDArray (map Num (map ?f rs)))"
    using rs B_Q_PB_base_array [OF t iter, where rs = rs] by (simp add: o_def)
  have 4: "B_Q_PB (NDArray (map Num rs)) reactor RS_ITER =
      Inr (NDArray (map (\<lambda>b. Num (b powr (1 / 3.7))) (map ?f rs)))"
    using rs B_Q_PB_array [OF t iter, where rs = rs] by (simp add: o_def)
  have 5: "\<forall>b\<in>set (map ?f rs). 0 < b" using rs f by auto
  from 1 2 f [OF r] have "\<exists>b. B_Q_PB_base (Scalar (Float r)) reactor RS_ITER = Inr (Scalar (Float b)) \<and> 0 < b \<and>
      B_Q_PB (Scalar (Float r)) reactor RS_ITER = Inr (Scalar (Float (b powr (1 / 3.7))))"
    by blast
  moreover from 3 4 5 have "\<exists>bs. B_Q_PB_base (NDArray (map Num rs)) reactor RS_ITER = Inr (NDArray (map Num bs)) \<and>
      (\<forall>b\<in>set bs. 0 < b) \<and>
      B_Q_PB (NDArray (map Num rs)) reactor RS_ITER =
        Inr (NDArray (map (\<lambda>b. Num (b powr (1 / 3.7))) bs))"
    by blast
  ultimately show ?thesis by blast
qed

text \<open>
  C7 at the corner of the slider domains with the largest \<open>q\<close>, \<open>H\<close> and \<open>beta_N\<close>,
  for the radius \<open>2\<close> and the radii \<open>[2, 10]\<close>.
\<close>

theorem power_balance_base_positive_witness:
  "in_slider_domain (init 3.1 6 1.2 3.5 1.2 1 3500 100 1) \<and>
   Q_PB (init 3.1 6 1.2 3.5 1.2 1 3500 100 1) = 1 \<and> (2::real) \<le> 2 \<and> (2::real) \<le> 10 \<and>
   (\<exists>b. B_Q_PB_base (Scalar (Float 2)) (init 3.1 6 1.2 3.5 1.2 1 3500 100 1) RS_ITER =
        Inr (Scalar (Float b)) \<and> 0 < b \<and>
      B_Q_PB (Scalar (Float 2)) (init 3.1 6 1.2 3.5 1.2 1 3500 100 1) RS_ITER =
        Inr (Scalar (Float (b powr (1 / 3.7))))) \<and>
   (\<exists>bs. B_Q_PB_base (NDArray [Num 2, Num 10]) (init 3.1 6 1.2 3.5 1.2 1 3500 100 1) RS_ITER =
        Inr (NDArray (map Num bs)) \<and> list_all (\<lambda>b. 0 < b) bs \<and>
      B_Q_PB (NDArray [Num 2, Num 10]) (init 3.1 6 1.2 3.5 1.2 1 3500 100 1) RS_ITER =
        Inr (NDArray (map (\<lambda>b. Num (b powr (1 / 3.7))) bs)))"
proof -
  have d: "in_slider_domain (init 3.1 6 1.2 3.5 1.2 1 3500 100 1)"
    by (simp add: in_slider_domain_def init_def)
  have q: "Q_PB (init 3.1 6 1.2 3.5 1.2 1 3500 100 1) = 1"
    by (simp add: init_def)
  show ?thesis
    using d q power_balance_base_positive [OF d q, of 2 "[2, 10]"]
    by (simp add: list_all_iff)
qed

text \<open>
  C8. For each law, any target and any reference: if the evaluation over an array of radii
  returns, the result is an array of the same length whose element at each index is the
  single element of the evaluation over the one-element array of the radius at that index.
  If it raises, the evaluation over every one-element array raises the same exception.
\<close>

theorem sweep_is_elementwise:
  assumes "law \<in> {B_Pfus, B_Q_PB, B_Q_CD, B_f_zdiv}"
  shows "case law (NDArray (map Num rs)) reactor reactor_ref of
      Inl e \<Rightarrow> \<forall>r. law (NDArray [Num r]) reactor reactor_ref = Inl e
    | Inr out \<Rightarrow> \<exists>bs. out = NDArray bs \<and> length bs = length rs \<and>
        (\<forall>i<length rs. law (NDArray [Num (rs ! i)]) reactor reactor_ref = Inr (NDArray [bs ! i]))"
proof -
  let ?F = "\<lambda>rs. law (NDArray (map Num rs)) reactor reactor_ref"
  from law_elementwise [OF assms, of reactor reactor_ref]
  consider e where "\<forall>rs. ?F rs = Inl e" | g where "\<forall>rs. ?F rs = Inr (NDArray (map g rs))"
    unfolding elementwise_def by blast
  then show ?thesis
  proof cases
    case 1
    have "law (NDArray [Num r]) reactor reactor_ref = Inl e" for r
      using 1 [rule_format, of "[r]"] by simp
    then show ?thesis using 1 by simp
  next
    case 2
    have "law (NDArray [Num r]) reactor reactor_ref = Inr (NDArray [g r])" for r
      using 2 [rule_format, of "[r]"] by simp
    then show ?thesis using 2 by simp
  qed
qed

text \<open>C8 for \<open>B_f_zdiv\<close> at the ITER reference and the radii \<open>[2, 6.2]\<close>.\<close>

theorem sweep_is_elementwise_witness:
  "B_f_zdiv \<in> {B_Pfus, B_Q_PB, B_Q_CD, B_f_zdiv} \<and>
   (\<exists>bs. B_f_zdiv (NDArray (map Num [2, 6.2])) RS_ITER RS_ITER = Inr (NDArray bs) \<and>
      length bs = 2 \<and>
      B_f_zdiv (NDArray [Num 2]) RS_ITER RS_ITER = Inr (NDArray [bs ! 0]) \<and>
      B_f_zdiv (NDArray [Num 6.2]) RS_ITER RS_ITER = Inr (NDArray [bs ! 1]))"
proof -
  have "B_f_zdiv (NDArray (map Num [2, 6.2])) RS_ITER RS_ITER =
      Inr (NDArray (map (\<lambda>r. Num (B_f_zdiv_real r RS_ITER RS_ITER 5.2 6.2)) [2, 6.2]))"
    by (rule B_f_zdiv_array [OF iter_positive iter_positive iter_fields(10,11)]) simp_all
  with sweep_is_elementwise [where law = B_f_zdiv and rs = "[2, 6.2]" and reactor = RS_ITER
      and reactor_ref = RS_ITER]
  obtain bs where bs: "B_f_zdiv (NDArray (map Num [2, 6.2])) RS_ITER RS_ITER = Inr (NDArray bs)"
      "length bs = 2"
      "\<forall>i<2. B_f_zdiv (NDArray [Num ([2, 6.2] ! i)]) RS_ITER RS_ITER = Inr (NDArray [bs ! i])"
    by auto
  from bs(3) [rule_format, of 0] bs(3) [rule_format, of 1] bs(1,2)
  show ?thesis by auto
qed

text \<open>
  C9, as stated, fails: the coefficient that \<open>B_Q_CD\<close> uses is not \<open>0.02228\<close>.
\<close>

theorem bootstrap_coefficient_counterexample: "c_BS \<noteq> 0.02228"
  by (simp add: c_BS_def)

text \<open>
  C9, amended. The coefficient is the quotient \<open>0.7 * 0.00331 / 0.104 = 2317/104000\<close>,
  about \<open>0.0222788\<close>; it differs from \<open>0.02228\<close> by less than \<open>0.000005\<close>.
\<close>

theorem bootstrap_coefficient: "c_BS = 2317 / 104000 \<and> \<bar>c_BS - 0.02228\<bar> < 0.000005"
  by (simp add: c_BS_def)

text \<open>
  C10. Two targets with the same \<open>f_GW\<close>, \<open>f_LH\<close> and \<open>q\<close> give the same result of
  \<open>B_f_zdiv\<close>, for every radius argument and every reference.
\<close>

theorem divertor_law_inputs:
  assumes "f_GW t1 = f_GW t2" "f_LH t1 = f_LH t2" "q t1 = q t2"
  shows "B_f_zdiv R0 t1 reactor_ref = B_f_zdiv R0 t2 reactor_ref"
  using assms by (simp add: B_f_zdiv_def)

text \<open>
  C10 for two targets that differ in \<open>A\<close>, \<open>H\<close>, \<open>beta_N\<close>, \<open>P_fus\<close>,
  \<open>Q_CD\<close> and \<open>Q_PB\<close>.
\<close>

theorem divertor_law_inputs_witness:
  "f_GW (init 3.1 4 1.1 2.5 1 1.2 1000 20 30) = f_GW (init 5 4 1.2 3.5 1 1.2 400 1 1) \<and>
   f_LH (init 3.1 4 1.1 2.5 1 1.2 1000 20 30) = f_LH (init 5 4 1.2 3.5 1 1.2 400 1 1) \<and>
   q (init 3.1 4 1.1 2.5 1 1.2 1000 20 30) = q (init 5 4 1.2 3.5 1 1.2 400 1 1) \<and>
   B_f_zdiv (NDArray [Num 2, Num 6.2]) (init 3.1 4 1.1 2.5 1 1.2 1000 20 30) RS_ITER =
   B_f_zdiv (NDArray [Num 2, Num 6.2]) (init 5 4 1.2 3.5 1 1.2 400 1 1) RS_ITER"
  using divertor_law_inputs [of "init 3.1 4 1.1 2.5 1 1.2 1000 20 30" "init 5 4 1.2 3.5 1 1.2 400 1 1"
      "NDArray [Num 2, Num 6.2]" RS_ITER]
  by (simp add: init_def)

end
